theory Spec2Isabelle
  imports Main
begin

section \<open>Tokens and JavaScript values\<close>

text \<open>
  A lexer token as the visitor reads it: its text (\<open>image\<close>) and the name of its token
  type (\<open>tokenType.name\<close>).
\<close>

record IToken =
  tokImage :: string
  tokenType_name :: string

text \<open>
  A CST node is a dictionary from child names to arrays. A key is either absent or holds
  the array of the children that matched, so a child that the visitor tests before use
  is an \<open>option\<close> (of the first element where only \<open>[0]\<close> is read, of the whole list
  where the length is read), and a child that the visitor reads without a test is mandatory.
\<close>

definition truthy_string :: "string \<Rightarrow> bool" where
  "truthy_string s = (s \<noteq> [])"

text \<open>
  \<open>Number(image)\<close> is applied to the images of unsigned-integer tokens only. It is
  modelled on non-empty strings of decimal digits (exact below \<open>2^53\<close>); every other
  string gives \<open>NaN\<close>.
\<close>

datatype jsNumber = Num nat | NaN

definition is_digit :: "char \<Rightarrow> bool" where
  "is_digit c = (c \<in> set ''0123456789'')"

definition digit_val :: "char \<Rightarrow> nat" where
  "digit_val c = of_char c - 48"

definition Number :: "string \<Rightarrow> jsNumber" where
  "Number s =
     (if s \<noteq> [] \<and> list_all is_digit s
      then Num (foldl (\<lambda>a c. 10 * a + digit_val c) 0 s)
      else NaN)"

fun truthy_number :: "jsNumber \<Rightarrow> bool" where
  "truthy_number (Num n) = (n \<noteq> 0)"
| "truthy_number NaN = False"

text \<open>\<open>s.split(c)\<close> and \<open>s.includes(c)\<close> for a one-character separator.\<close>

fun split :: "char \<Rightarrow> string \<Rightarrow> string list" where
  "split c [] = [[]]"
| "split c (x # xs) =
     (if x = c then [] # split c xs
      else (case split c xs of
              [] \<Rightarrow> [[x]]
            | y # ys \<Rightarrow> (x # y) # ys))"

definition includes_char :: "string \<Rightarrow> char \<Rightarrow> bool" where
  "includes_char s c = (c \<in> set s)"

text \<open>\<open>xs.join(sep)\<close>.\<close>

fun join :: "string \<Rightarrow> string list \<Rightarrow> string" where
  "join sep [] = []"
| "join sep [x] = x"
| "join sep (x # y # ys) = x @ sep @ join sep (y # ys)"

text \<open>\<open>s.replace(a, b)\<close> with a one-character pattern: the first occurrence only.\<close>

fun replace :: "char \<Rightarrow> string \<Rightarrow> string \<Rightarrow> string" where
  "replace a b [] = []"
| "replace a b (x # xs) = (if x = a then b @ xs else x # replace a b xs)"

section \<open>Literal classification\<close>

definition BOOLEANS :: "string list" where
  "BOOLEANS = [''TRUE'', ''FALSE'']"

definition DATE_LITERALS :: "string list" where
  "DATE_LITERALS =
     [''YESTERDAY'', ''TODAY'', ''TOMORROW'', ''LAST_WEEK'', ''THIS_WEEK'', ''NEXT_WEEK'',
      ''LAST_MONTH'', ''THIS_MONTH'', ''NEXT_MONTH'', ''LAST_90_DAYS'', ''NEXT_90_DAYS'',
      ''THIS_QUARTER'', ''LAST_QUARTER'', ''NEXT_QUARTER'', ''THIS_YEAR'', ''LAST_YEAR'',
      ''NEXT_YEAR'', ''THIS_FISCAL_QUARTER'', ''LAST_FISCAL_QUARTER'',
      ''NEXT_FISCAL_QUARTER'', ''THIS_FISCAL_YEAR'', ''LAST_FISCAL_YEAR'',
      ''NEXT_FISCAL_YEAR'']"

definition DATE_N_LITERALS :: "string list" where
  "DATE_N_LITERALS =
     [''NEXT_N_DAYS'', ''LAST_N_DAYS'', ''N_DAYS_AGO'', ''NEXT_N_WEEKS'', ''LAST_N_WEEKS'',
      ''N_WEEKS_AGO'', ''NEXT_N_MONTHS'', ''LAST_N_MONTHS'', ''N_MONTHS_AGO'',
      ''NEXT_N_QUARTERS'', ''LAST_N_QUARTERS'', ''N_QUARTERS_AGO'', ''NEXT_N_YEARS'',
      ''LAST_N_YEARS'', ''N_YEARS_AGO'', ''NEXT_N_FISCAL_QUARTERS'',
      ''LAST_N_FISCAL_QUARTERS'', ''N_FISCAL_QUARTERS_AGO'', ''NEXT_N_FISCAL_YEARS'',
      ''LAST_N_FISCAL_YEARS'', ''N_FISCAL_YEARS_AGO'']"

text \<open>The values of the \<open>LiteralType\<close> enumeration (with \<open>SUBQUERY\<close>), which are strings.\<close>

definition LiteralType_values :: "string list" where
  "LiteralType_values =
     [''STRING'', ''INTEGER'', ''DECIMAL'', ''INTEGER_WITH_CURRENCY_PREFIX'',
      ''DECIMAL_WITH_CURRENCY_PREFIX'', ''BOOLEAN'', ''DATE'', ''DATETIME'', ''NULL'',
      ''DATE_LITERAL'', ''DATE_N_LITERAL'', ''APEX_BIND_VARIABLE'', ''SUBQUERY'']"

definition getLiteralTypeFromTokenType :: "string \<Rightarrow> string" where
  "getLiteralTypeFromTokenType tokenTypeName =
     (if tokenTypeName = ''REAL_NUMBER'' then ''DECIMAL''
      else if tokenTypeName = ''CURRENCY_PREFIXED_DECIMAL'' then ''DECIMAL_WITH_CURRENCY_PREFIX''
      else if tokenTypeName = ''CURRENCY_PREFIXED_INTEGER'' then ''INTEGER_WITH_CURRENCY_PREFIX''
      else if tokenTypeName = ''SIGNED_DECIMAL'' then ''DECIMAL''
      else if tokenTypeName = ''UNSIGNED_DECIMAL'' then ''DECIMAL''
      else if tokenTypeName = ''UNSIGNED_INTEGER'' then ''INTEGER''
      else if tokenTypeName = ''SIGNED_INTEGER'' then ''INTEGER''
      else if tokenTypeName = ''DATETIME'' then ''DATETIME''
      else if tokenTypeName = ''DATE'' then ''DATE''
      else if tokenTypeName = ''NULL'' then ''NULL''
      else if tokenTypeName = ''StringIdentifier'' then ''STRING''
      else if tokenTypeName = ''Identifier'' then ''STRING''
      else if tokenTypeName \<in> set BOOLEANS then ''BOOLEAN''
      else if tokenTypeName \<in> set DATE_LITERALS then ''DATE_LITERAL''
      else if tokenTypeName \<in> set DATE_N_LITERALS then ''DATE_N_LITERAL''
      else ''STRING'')"

section \<open>Date-N literals and array literals\<close>

record DateNLiteralContext =
  dateNLiteral_token :: IToken
  variable_token :: IToken

text \<open>The object that \<open>dateNLiteral\<close> and the token branch of \<open>arrayExpression\<close> build.\<close>

record ArrayExpressionWithType =
  item_type :: "string option"
  item_value :: string
  item_variable :: "jsNumber option"

definition dateNLiteral :: "DateNLiteralContext \<Rightarrow> bool \<Rightarrow> ArrayExpressionWithType" where
  "dateNLiteral ctx includeType =
     \<lparr> item_type = (if includeType then Some (tokenType_name (dateNLiteral_token ctx)) else None),
       item_value = tokImage (dateNLiteral_token ctx) @ '':'' @ tokImage (variable_token ctx),
       item_variable = Some (Number (tokImage (variable_token ctx))) \<rparr>"

text \<open>
  An element of \<open>ctx.value\<close> of an array expression: a token (\<open>isToken\<close>), or the CST
  node of a date-N literal.
\<close>

datatype ArrayItem = ArrayToken IToken | ArrayDateNLiteral DateNLiteralContext

fun arrayItem :: "ArrayItem \<Rightarrow> ArrayExpressionWithType" where
  "arrayItem (ArrayToken t) =
     \<lparr> item_type = Some (tokenType_name t), item_value = tokImage t, item_variable = None \<rparr>"
| "arrayItem (ArrayDateNLiteral d) = dateNLiteral d True"

definition arrayExpression :: "ArrayItem list \<Rightarrow> ArrayExpressionWithType list" where
  "arrayExpression ctx_value = map arrayItem ctx_value"

section \<open>Function expressions\<close>

text \<open>
  The object built for a function call. \<open>fn_type\<close>, \<open>isAggregateFn\<close> and \<open>fn_alias\<close>
  are the optional keys \<open>type\<close>, \<open>isAggregateFn\<close> and \<open>alias\<close>; a parameter is a
  string or a nested function object.
\<close>

datatype FnParam = PString string | PFn FunctionExp
and FunctionExp = FunctionExp
  (fn_type: "string option")
  (functionName: string)
  (parameters: "FnParam list")
  (isAggregateFn: "bool option")
  (rawValue: string)
  (fn_alias: "string option")

record GeoLocationFunctionContext =
  latitude :: IToken
  longitude :: IToken

text \<open>\<open>ctx.location2\<close> is a token (\<open>isToken\<close>) or the node of a \<open>GEOLOCATION\<close> call.\<close>

datatype Location2 = Location2Token IToken | Location2Node GeoLocationFunctionContext

record LocationFunctionContext =
  location1 :: IToken
  location2 :: Location2
  unit_token :: IToken

text \<open>
  The CST of the other function rules. A parameter of a function expression is a token
  (it has an \<open>image\<close>) or the node of a nested function call; \<open>visit\<close> of a node
  dispatches on the rule that produced it.
\<close>

datatype FunctionNode =
    DateFunction FieldFunctionContext
  | AggregateFunction FieldFunctionContext
  | OtherFunction FieldFunctionContext
  | CubeFunction FieldFunctionContext
  | RollupFunction FieldFunctionContext
  | LocationFunction LocationFunctionContext
  | GeolocationFunction GeoLocationFunctionContext
and FieldFunctionContext = FieldFunctionContext
  (fn_token: IToken)
  (functionExpression_nodes: "FunctionExpressionContext list option")
and FunctionExpressionContext = FunctionExpressionContext
  (params: "FunctionParam list option")
and FunctionParam = ParamToken IToken | ParamNode FunctionNode

fun paramRawValue :: "FnParam \<Rightarrow> string" where
  "paramRawValue (PString s) = s"
| "paramRawValue (PFn f) = rawValue f"

definition geolocationFunction :: "GeoLocationFunctionContext \<Rightarrow> bool \<Rightarrow> FunctionExp" where
  "geolocationFunction ctx includeType =
     FunctionExp
       (if includeType then Some ''FieldFunctionExpression'' else None)
       ''GEOLOCATION''
       [PString (tokImage (latitude ctx)), PString (tokImage (longitude ctx))]
       None
       (''GEOLOCATION('' @ tokImage (latitude ctx) @ '', '' @ tokImage (longitude ctx) @ '')'')
       None"

definition locationFunction :: "LocationFunctionContext \<Rightarrow> bool \<Rightarrow> FunctionExp" where
  "locationFunction ctx includeType =
     (let ps = [PString (tokImage (location1 ctx)),
                (case location2 ctx of
                   Location2Token t \<Rightarrow> PString (tokImage t)
                 | Location2Node g \<Rightarrow> PFn (geolocationFunction g includeType)),
                PString (tokImage (unit_token ctx))]
      in FunctionExp
           (if includeType then Some ''FieldFunctionExpression'' else None)
           ''DISTANCE''
           ps
           (if includeType then Some True else None)
           (''DISTANCE('' @ paramRawValue (ps ! 0) @ '', '' @ paramRawValue (ps ! 1) @ '', ''
              @ paramRawValue (ps ! 2) @ '')'')
           None)"

text \<open>
  \<open>visitFunction node includeType\<close> is \<open>this.visit(node, { includeType })\<close>; a call
  \<open>this.visit(node)\<close> without options takes the default \<open>includeType = true\<close> of the
  visited method. \<open>$_getFieldFunction\<close> visits \<open>ctx.functionExpression\<close> (the array,
  hence its first node) once per element of that array and flattens the results.
\<close>

fun visitFunction :: "FunctionNode \<Rightarrow> bool \<Rightarrow> FunctionExp"
  and getFieldFunction :: "FieldFunctionContext \<Rightarrow> bool \<Rightarrow> bool \<Rightarrow> FunctionExp"
  and functionExpression :: "FunctionExpressionContext \<Rightarrow> bool \<Rightarrow> FnParam list"
  and functionParam :: "FunctionParam \<Rightarrow> bool \<Rightarrow> FnParam"
where
  "visitFunction (DateFunction ctx) includeType = getFieldFunction ctx False includeType"
| "visitFunction (AggregateFunction ctx) includeType = getFieldFunction ctx True includeType"
| "visitFunction (OtherFunction ctx) includeType = getFieldFunction ctx False includeType"
| "visitFunction (CubeFunction ctx) includeType = getFieldFunction ctx False False"
| "visitFunction (RollupFunction ctx) includeType = getFieldFunction ctx False False"
| "visitFunction (LocationFunction ctx) includeType = locationFunction ctx includeType"
| "visitFunction (GeolocationFunction ctx) includeType = geolocationFunction ctx includeType"
| "getFieldFunction (FieldFunctionContext fn fe) isAggregate includeType =
     (let args = (case fe of
                    None \<Rightarrow> []
                  | Some [] \<Rightarrow> []
                  | Some (n0 # ns) \<Rightarrow>
                      concat (map (\<lambda>node. functionExpression n0 includeType) (n0 # ns)))
      in FunctionExp
           (if includeType then Some ''FieldFunctionExpression'' else None)
           (tokenType_name fn)
           args
           (if includeType \<and> isAggregate then Some isAggregate else None)
           (tokImage fn @ ''('' @ join '', '' (map paramRawValue args) @ '')'')
           None)"
| "functionExpression (FunctionExpressionContext ps) includeType =
     (case ps of
        None \<Rightarrow> []
      | Some items \<Rightarrow> map (\<lambda>item. functionParam item includeType) items)"
| "functionParam (ParamToken t) includeType = PString (tokImage t)"
| "functionParam (ParamNode n) includeType = PFn (visitFunction n includeType)"

section \<open>Conditions\<close>

text \<open>
  The right-hand side value of a condition: a string, an array of strings, or the query
  built for a subquery (\<open>'q\<close>). \<open>literalType\<close> is one tag or a sequence of tags;
  \<open>dateLiteralVariable\<close> is a number or a sequence of numbers and \<open>null\<close>s.
\<close>

datatype 'q RhsValue = VString string | VArray "string list" | VQuery 'q

datatype LiteralTypeField = LTScalar string | LTSeq "string list"

datatype DateLiteralVariable = DLVNumber jsNumber | DLVArray "jsNumber option list"

text \<open>What \<open>atomicExpression\<close> returns; \<open>None\<close> is \<open>undefined\<close>.\<close>

record 'q AtomicResult =
  ar_value :: "'q RhsValue option"
  ar_literalType :: "LiteralTypeField option"
  ar_dateLiteralVariable :: "DateLiteralVariable option"

text \<open>
  The children of an \<open>atomicExpression\<close> node that are tokens or nodes without a nested
  statement, under the names the visitor tests. \<open>k_apexBindVariableExpression\<close> is the
  \<open>Identifier\<close> token of that child node and \<open>k_booleanValue\<close> the \<open>boolean\<close>
  token of that one, which is all their visits read; \<open>k_date\<close> is tested only.
\<close>

record AtomicExpressionTokens =
  k_apexBindVariableExpression :: "IToken option"
  k_NumberIdentifier :: "IToken option"
  k_UnsignedInteger :: "IToken option"
  k_SignedInteger :: "IToken option"
  k_RealNumber :: "IToken option"
  k_DateIdentifier :: "IToken option"
  k_CurrencyPrefixedInteger :: "IToken option"
  k_CurrencyPrefixedDecimal :: "IToken option"
  k_DateTime :: "IToken option"
  k_date :: "IToken option"
  k_DateToken :: "IToken option"
  k_NULL :: "IToken option"
  k_StringIdentifier :: "IToken option"
  k_Identifier :: "IToken option"
  k_booleanValue :: "IToken option"
  k_DateLiteral :: "IToken option"
  k_dateNLiteral :: "DateNLiteralContext option"
  k_arrayExpression :: "ArrayItem list option"

definition no_tokens :: AtomicExpressionTokens where
  "no_tokens =
     \<lparr> k_apexBindVariableExpression = None, k_NumberIdentifier = None,
       k_UnsignedInteger = None, k_SignedInteger = None, k_RealNumber = None,
       k_DateIdentifier = None, k_CurrencyPrefixedInteger = None,
       k_CurrencyPrefixedDecimal = None, k_DateTime = None, k_date = None,
       k_DateToken = None, k_NULL = None, k_StringIdentifier = None, k_Identifier = None,
       k_booleanValue = None, k_DateLiteral = None, k_dateNLiteral = None,
       k_arrayExpression = None \<rparr>"

text \<open>
  An \<open>atomicExpression\<close> node. \<open>'s\<close> stands for the nested select statement of
  \<open>whereClauseSubqueryIdentifier\<close>; the visitor functions below take the node with
  \<open>'s\<close> replaced by the outcome of visiting that statement (\<open>None\<close>: the visit raised).
\<close>

datatype 's AtomicExpressionContext = AtomicExpressionContext
  (tokens: AtomicExpressionTokens)
  (whereClauseSubqueryIdentifier: "'s option")

definition scalarResult :: "string \<Rightarrow> string \<Rightarrow> 'q AtomicResult" where
  "scalarResult v t =
     \<lparr> ar_value = Some (VString v), ar_literalType = Some (LTScalar t),
       ar_dateLiteralVariable = None \<rparr>"

text \<open>
  \<open>$_getLiteralTypeFromTokenType(item.type)\<close>: an absent \<open>type\<close> is \<open>undefined\<close>,
  which equals none of the names and is in none of the tables.
\<close>

definition literalTypeOfItem :: "ArrayExpressionWithType \<Rightarrow> string" where
  "literalTypeOfItem item =
     (case item_type item of None \<Rightarrow> ''STRING'' | Some t \<Rightarrow> getLiteralTypeFromTokenType t)"

text \<open>\<open>item.variable || null\<close>.\<close>

definition variableOrNull :: "ArrayExpressionWithType \<Rightarrow> jsNumber option" where
  "variableOrNull item =
     (case item_variable item of
        None \<Rightarrow> None
      | Some n \<Rightarrow> (if truthy_number n then Some n else None))"

definition arrayResult :: "ArrayItem list \<Rightarrow> 'q AtomicResult" where
  "arrayResult ctx_value =
     (let arrayValues = arrayExpression ctx_value;
          dateLiteralTemp = map variableOrNull arrayValues;
          hasDateLiterals = list_ex (\<lambda>item. item \<noteq> None) dateLiteralTemp;
          literalType =
            (if length (remdups (map item_type arrayValues)) = 1
             then LTScalar (literalTypeOfItem (hd arrayValues))
             else LTSeq (map literalTypeOfItem arrayValues));
          literalType' =
            (case literalType of
               LTScalar t \<Rightarrow> (if truthy_string t then literalType else LTScalar ''STRING'')
             | LTSeq ts \<Rightarrow> literalType)
      in \<lparr> ar_value = Some (VArray (map item_value arrayValues)),
           ar_literalType = Some literalType',
           ar_dateLiteralVariable =
             (if hasDateLiterals then Some (DLVArray dateLiteralTemp) else None) \<rparr>)"

text \<open>
  \<open>atomicExpression\<close>, called with \<open>returnLiteralType: true\<close> as all its callers do.
  The result \<open>None\<close> is a raised \<open>TypeError\<close>: the branch of \<open>ctx.date\<close> reads
  \<open>ctx.DateToken[0]\<close>, and the last branch raises when visiting the nested statement did.
  When no branch applies, every component of the result is \<open>undefined\<close>.
\<close>

definition atomicExpression :: "'q option AtomicExpressionContext \<Rightarrow> 'q AtomicResult option" where
  "atomicExpression ctx =
     (let k = tokens ctx in
      if k_apexBindVariableExpression k \<noteq> None then
        Some (scalarResult (tokImage (the (k_apexBindVariableExpression k))) ''APEX_BIND_VARIABLE'')
      else if k_NumberIdentifier k \<noteq> None then
        Some (scalarResult (tokImage (the (k_NumberIdentifier k)))
                (getLiteralTypeFromTokenType (tokenType_name (the (k_NumberIdentifier k)))))
      else if k_UnsignedInteger k \<noteq> None then
        Some (scalarResult (tokImage (the (k_UnsignedInteger k))) ''INTEGER'')
      else if k_SignedInteger k \<noteq> None then
        Some (scalarResult (tokImage (the (k_SignedInteger k))) ''INTEGER'')
      else if k_RealNumber k \<noteq> None then
        Some (scalarResult (tokImage (the (k_RealNumber k))) ''DECIMAL'')
      else if k_DateIdentifier k \<noteq> None then
        Some (scalarResult (tokImage (the (k_DateIdentifier k)))
                (getLiteralTypeFromTokenType (tokenType_name (the (k_DateIdentifier k)))))
      else if k_CurrencyPrefixedInteger k \<noteq> None then
        Some (scalarResult (tokImage (the (k_CurrencyPrefixedInteger k)))
                ''INTEGER_WITH_CURRENCY_PREFIX'')
      else if k_CurrencyPrefixedDecimal k \<noteq> None then
        Some (scalarResult (tokImage (the (k_CurrencyPrefixedDecimal k)))
                ''DECIMAL_WITH_CURRENCY_PREFIX'')
      else if k_DateTime k \<noteq> None then
        Some (scalarResult (tokImage (the (k_DateTime k))) ''DATETIME'')
      else if k_date k \<noteq> None then
        (case k_DateToken k of
           None \<Rightarrow> None
         | Some t \<Rightarrow> Some (scalarResult (tokImage t) ''DATE''))
      else if k_NULL k \<noteq> None then
        Some (scalarResult ''NULL'' ''NULL'')
      else if k_StringIdentifier k \<noteq> None then
        Some (scalarResult (tokImage (the (k_StringIdentifier k))) ''STRING'')
      else if k_Identifier k \<noteq> None then
        Some (scalarResult (tokImage (the (k_Identifier k))) ''STRING'')
      else if k_booleanValue k \<noteq> None then
        Some (scalarResult (tokenType_name (the (k_booleanValue k))) ''BOOLEAN'')
      else if k_DateLiteral k \<noteq> None then
        Some (scalarResult (tokImage (the (k_DateLiteral k))) ''DATE_LITERAL'')
      else if k_dateNLiteral k \<noteq> None then
        (let valueAndVariable = dateNLiteral (the (k_dateNLiteral k)) False
         in Some \<lparr> ar_value = Some (VString (item_value valueAndVariable)),
                   ar_literalType = Some (LTScalar ''DATE_N_LITERAL''),
                   ar_dateLiteralVariable =
                     map_option DLVNumber (item_variable valueAndVariable) \<rparr>)
      else if k_arrayExpression k \<noteq> None then
        Some (arrayResult (the (k_arrayExpression k)))
      else
        (case whereClauseSubqueryIdentifier ctx of
           None \<Rightarrow>
             Some \<lparr> ar_value = None, ar_literalType = None, ar_dateLiteralVariable = None \<rparr>
         | Some None \<Rightarrow> None
         | Some (Some q) \<Rightarrow>
             Some \<lparr> ar_value = Some (VQuery q), ar_literalType = Some (LTScalar ''SUBQUERY''),
                    ar_dateLiteralVariable = None \<rparr>))"

text \<open>
  The node of \<open>expressionWithRelationalOperator\<close> or \<open>expressionWithSetOperator\<close>:
  the operator token of its \<open>relationalOperator\<close> or \<open>setOperator\<close> child, and the
  right-hand side.
\<close>

datatype 's ExpressionOperatorContext = ExpressionOperatorContext
  (relationalOperator_token: "IToken option")
  (setOperator_token: "IToken option")
  (rhs: "'s AtomicExpressionContext")

definition relationalOperator :: "IToken \<Rightarrow> string" where
  "relationalOperator t = tokImage t"

definition setOperator :: "IToken \<Rightarrow> string" where
  "setOperator t = replace CHR ''_'' '' '' (tokenType_name t)"

text \<open>\<open>this.visit(ctx.relationalOperator) || this.visit(ctx.setOperator)\<close>.\<close>

definition operatorOf :: "'s ExpressionOperatorContext \<Rightarrow> string option" where
  "operatorOf ctx =
     (case map_option relationalOperator (relationalOperator_token ctx) of
        Some s \<Rightarrow> (if truthy_string s then Some s
                   else map_option setOperator (setOperator_token ctx))
      | None \<Rightarrow> map_option setOperator (setOperator_token ctx))"

text \<open>The left-hand side of an expression: a token or the node of a function call.\<close>

datatype Lhs = LhsToken IToken | LhsFunction FunctionNode

datatype 's ExpressionContext = ExpressionContext
  (logicalPrefix_token: "IToken option")
  (lhs: Lhs)
  (operator_node: "'s ExpressionOperatorContext")
  (L_PAREN: "IToken list option")
  (R_PAREN: "IToken list option")

datatype 'q Condition = Condition
  (logicalPrefix: "string option")
  (cond_field: "string option")
  (cond_fn: "FunctionExp option")
  (cond_operator: "string option")
  (cond_value: "'q RhsValue option")
  (literalType: "LiteralTypeField option")
  (valueQuery: "'q RhsValue option")
  (dateLiteralVariable: "DateLiteralVariable option")
  (openParen: "nat option")
  (closeParen: "nat option")

text \<open>The test \<open>if (dateLiteralVariable)\<close>: a number is tested for truth, an array is true.\<close>

fun truthy_dateLiteralVariable :: "DateLiteralVariable option \<Rightarrow> bool" where
  "truthy_dateLiteralVariable None = False"
| "truthy_dateLiteralVariable (Some (DLVNumber n)) = truthy_number n"
| "truthy_dateLiteralVariable (Some (DLVArray xs)) = True"

definition expression :: "'q option ExpressionContext \<Rightarrow> 'q Condition option" where
  "expression ctx =
     (case atomicExpression (rhs (operator_node ctx)) of
        None \<Rightarrow> None
      | Some r \<Rightarrow>
          (let isSubquery = (ar_literalType r = Some (LTScalar ''SUBQUERY''))
           in Some (Condition
                (map_option tokImage (logicalPrefix_token ctx))
                (case lhs ctx of LhsToken t \<Rightarrow> Some (tokImage t) | LhsFunction f \<Rightarrow> None)
                (case lhs ctx of LhsToken t \<Rightarrow> None
                               | LhsFunction f \<Rightarrow> Some (visitFunction f False))
                (operatorOf (operator_node ctx))
                (if isSubquery then None else ar_value r)
                (if isSubquery then None else ar_literalType r)
                (if isSubquery then ar_value r else None)
                (if truthy_dateLiteralVariable (ar_dateLiteralVariable r)
                 then ar_dateLiteralVariable r else None)
                (map_option length (L_PAREN ctx))
                (map_option length (R_PAREN ctx)))))"

section \<open>WHERE and HAVING chains\<close>

datatype 's ConditionExpressionContext = ConditionExpressionContext
  (logicalOperator: "IToken option")
  (expression_node: "'s ExpressionContext")

datatype 'q WhereClause = WhereClause
  (left: "'q Condition")
  (wc_operator: "string option")
  (right: "'q WhereClause option")

text \<open>
  \<open>conditionExpression\<close> returns \<open>{ left: ... }\<close>. Its other effect, on the node passed
  as \<open>prevExpression\<close>, and the assignment to \<open>prevExpression.right\<close> are \<open>link\<close>:
  \<open>prevExpression\<close> always is the last node of the chain built so far, since each step
  of the reduction moves it to the node just linked.
\<close>

definition conditionExpression :: "'q option ConditionExpressionContext \<Rightarrow> 'q WhereClause option" where
  "conditionExpression ctx =
     map_option (\<lambda>c. WhereClause c None None) (expression (expression_node ctx))"

fun link :: "'q WhereClause \<Rightarrow> IToken option \<Rightarrow> 'q WhereClause \<Rightarrow> 'q WhereClause" where
  "link (WhereClause l op None) logicalOp new =
     WhereClause l (case logicalOp of None \<Rightarrow> op | Some t \<Rightarrow> Some (tokenType_name t)) (Some new)"
| "link (WhereClause l op (Some r)) logicalOp new =
     WhereClause l op (Some (link r logicalOp new))"

fun reduce_conditions ::
  "'q WhereClause option \<Rightarrow> 'q option ConditionExpressionContext list \<Rightarrow> 'q WhereClause option option"
where
  "reduce_conditions expressionTree [] = Some expressionTree"
| "reduce_conditions expressionTree (currExpression # rest) =
     (case conditionExpression currExpression of
        None \<Rightarrow> None
      | Some new \<Rightarrow>
          reduce_conditions
            (case expressionTree of
               None \<Rightarrow> Some new
             | Some tree \<Rightarrow> Some (link tree (logicalOperator currExpression) new))
            rest)"

definition whereClause ::
  "'q option ConditionExpressionContext list \<Rightarrow> 'q WhereClause option option" where
  "whereClause ctx_conditionExpression = reduce_conditions None ctx_conditionExpression"

definition havingClause ::
  "'q option ConditionExpressionContext list \<Rightarrow> 'q WhereClause option option" where
  "havingClause ctx_conditionExpression = reduce_conditions None ctx_conditionExpression"

section \<open>Projected fields\<close>

record FieldTypeOfCondition =
  toc_type :: string
  objectType :: "string option"
  fieldList :: "string list"

text \<open>
  A projected field, by its \<open>type\<close> key. \<open>Field f objectPrefix alias rawValue\<close> and
  \<open>FieldRelationship f relationships objectPrefix alias rawValue\<close>: a \<open>Field\<close> made by the
  alias pass from a \<open>FieldRelationship\<close> still carries the \<open>rawValue\<close> key. \<open>'q\<close> is the
  query built for a subquery.
\<close>

datatype 'q FieldType =
    Field string "string option" "string option" "string option"
  | FieldRelationship string "string list" "string option" "string option" string
  | FieldFunctionExpression FunctionExp
  | FieldSubquery 'q
  | FieldTypeof string "FieldTypeOfCondition list"

text \<open>The keys \<open>relationships\<close> and \<open>objectPrefix\<close> of a projected field.\<close>

fun relationships :: "'q FieldType \<Rightarrow> string list option" where
  "relationships (FieldRelationship f rels pfx al raw) = Some rels"
| "relationships other = None"

fun objectPrefix :: "'q FieldType \<Rightarrow> string option" where
  "objectPrefix (Field f pfx al raw) = pfx"
| "objectPrefix (FieldRelationship f rels pfx al raw) = pfx"
| "objectPrefix other = None"

record SelectClauseTypeOfThenContext =
  then_typeOfField :: IToken
  then_field :: "IToken list"

record SelectClauseTypeOfElseContext =
  else_field :: "IToken list"

record SelectClauseTypeOfContext =
  typeOfField :: IToken
  selectClauseTypeOfThen_nodes :: "SelectClauseTypeOfThenContext list"
  selectClauseTypeOfElse_node :: "SelectClauseTypeOfElseContext option"

text \<open>
  An element of \<open>ctx.field\<close> of the select clause: a token, or the node of one of the
  four rules; \<open>'s\<close> is the nested statement of a subquery.
\<close>

datatype 's SelectField =
    FieldToken IToken
  | SelectClauseIdentifier IToken "IToken option"
  | SelectClauseFunctionIdentifier FunctionNode "IToken option"
  | SelectClauseSubqueryIdentifier 's
  | SelectClauseTypeOf SelectClauseTypeOfContext

text \<open>The object built from the image of an identifier, in both places of the source.\<close>

definition identifierField :: "string \<Rightarrow> 'q FieldType" where
  "identifierField field =
     (if \<not> includes_char field CHR ''.'' then Field field None None None
      else (let splitFields = split CHR ''.'' field
            in FieldRelationship (last splitFields) (butlast splitFields) None None field))"

fun setAlias :: "string \<Rightarrow> 'q FieldType \<Rightarrow> 'q FieldType" where
  "setAlias a (Field f pfx al raw) = Field f pfx (Some a) raw"
| "setAlias a (FieldRelationship f rels pfx al raw) = FieldRelationship f rels pfx (Some a) raw"
| "setAlias a other = other"

definition selectClauseIdentifier :: "IToken \<Rightarrow> IToken option \<Rightarrow> 'q FieldType" where
  "selectClauseIdentifier item ctx_alias =
     (let output = identifierField (tokImage item)
      in (case ctx_alias of
            None \<Rightarrow> output
          | Some a \<Rightarrow> (if truthy_string (tokImage a) then setAlias (tokImage a) output
                        else output)))"

definition selectClauseFunctionIdentifier :: "FunctionNode \<Rightarrow> IToken option \<Rightarrow> 'q FieldType" where
  "selectClauseFunctionIdentifier fn ctx_alias =
     (let output = visitFunction fn True
      in FieldFunctionExpression
           (case ctx_alias of
              None \<Rightarrow> output
            | Some a \<Rightarrow> FunctionExp (fn_type output) (functionName output) (parameters output)
                          (isAggregateFn output) (rawValue output) (Some (tokImage a))))"

definition selectClauseTypeOfThen :: "SelectClauseTypeOfThenContext \<Rightarrow> FieldTypeOfCondition" where
  "selectClauseTypeOfThen ctx =
     \<lparr> toc_type = ''WHEN'', objectType = Some (tokImage (then_typeOfField ctx)),
       fieldList = map tokImage (then_field ctx) \<rparr>"

definition selectClauseTypeOfElse :: "SelectClauseTypeOfElseContext \<Rightarrow> FieldTypeOfCondition" where
  "selectClauseTypeOfElse ctx =
     \<lparr> toc_type = ''ELSE'', objectType = None, fieldList = map tokImage (else_field ctx) \<rparr>"

definition selectClauseTypeOf :: "SelectClauseTypeOfContext \<Rightarrow> 'q FieldType" where
  "selectClauseTypeOf ctx =
     FieldTypeof (tokImage (typeOfField ctx))
       (map selectClauseTypeOfThen (selectClauseTypeOfThen_nodes ctx)
          @ (case selectClauseTypeOfElse_node ctx of
               None \<Rightarrow> []
             | Some e \<Rightarrow> [selectClauseTypeOfElse e]))"

text \<open>
  One element of the select clause, with the nested statement of a subquery already
  visited (\<open>None\<close>: that visit raised).
\<close>

fun selectField :: "'q option SelectField \<Rightarrow> 'q FieldType option" where
  "selectField (FieldToken item) = Some (identifierField (tokImage item))"
| "selectField (SelectClauseIdentifier item ctx_alias) =
     Some (selectClauseIdentifier item ctx_alias)"
| "selectField (SelectClauseFunctionIdentifier fn ctx_alias) =
     Some (selectClauseFunctionIdentifier fn ctx_alias)"
| "selectField (SelectClauseSubqueryIdentifier s) = map_option FieldSubquery s"
| "selectField (SelectClauseTypeOf ctx) = Some (selectClauseTypeOf ctx)"

text \<open>\<open>xs.map(f)\<close> where \<open>f\<close> may raise: the first raise ends the map.\<close>

fun map_raising :: "('a \<Rightarrow> 'b option) \<Rightarrow> 'a list \<Rightarrow> 'b list option" where
  "map_raising f [] = Some []"
| "map_raising f (x # xs) =
     (case f x of
        None \<Rightarrow> None
      | Some y \<Rightarrow> (case map_raising f xs of None \<Rightarrow> None | Some ys \<Rightarrow> Some (y # ys)))"

definition selectClause :: "'q option SelectField list option \<Rightarrow> 'q FieldType list option" where
  "selectClause ctx_field =
     (case ctx_field of None \<Rightarrow> Some [] | Some items \<Rightarrow> map_raising selectField items)"

section \<open>FROM clause and alias resolution\<close>

record FromClauseContext =
  from_Identifier :: IToken
  from_alias :: "IToken option"

record FromClauseOutput =
  out_sObjectPrefix :: "string list option"
  out_sObject :: string
  out_alias :: "string option"

definition fromClause :: "FromClauseContext \<Rightarrow> FromClauseOutput" where
  "fromClause ctx =
     (let sObject = tokImage (from_Identifier ctx);
          alias = map_option tokImage (from_alias ctx)
      in if includes_char sObject CHR ''.'' then
           (let sObjectPrefix = split CHR ''.'' sObject
            in \<lparr> out_sObjectPrefix = Some (butlast sObjectPrefix),
                 out_sObject = last sObjectPrefix, out_alias = alias \<rparr>)
         else \<lparr> out_sObjectPrefix = None, out_sObject = sObject, out_alias = alias \<rparr>)"

text \<open>
  The body of the \<open>forEach\<close> over the projected fields. Only an object with a
  \<open>relationships\<close> key is touched; \<open>relationships[0]\<close> of an empty array is \<open>undefined\<close>
  and equals no alias.
\<close>

fun resolveAlias :: "string \<Rightarrow> 'q FieldType \<Rightarrow> 'q FieldType" where
  "resolveAlias sObjectAlias (FieldRelationship f rels pfx al raw) =
     (let matches = (case rels of [] \<Rightarrow> False | r # rs \<Rightarrow> r = sObjectAlias);
          rels' = (if matches then tl rels else rels);
          pfx' = (if matches then Some sObjectAlias else pfx)
      in if rels' = [] then Field f pfx' al (Some raw)
         else FieldRelationship f rels' pfx' al raw)"
| "resolveAlias sObjectAlias other = other"

section \<open>WITH, GROUP BY and ORDER BY\<close>

record WithDataCategoryArrContext =
  dataCategoryGroupName :: IToken
  filteringSelector :: IToken
  dataCategoryName :: "IToken list"

record WithDataCategoryCondition =
  groupName :: string
  selector :: string
  wdc_parameters :: "string list"

definition withDataCategoryArr :: "WithDataCategoryArrContext \<Rightarrow> WithDataCategoryCondition" where
  "withDataCategoryArr ctx =
     \<lparr> groupName = tokImage (dataCategoryGroupName ctx),
       selector = tokImage (filteringSelector ctx),
       wdc_parameters = map tokImage (dataCategoryName ctx) \<rparr>"

record WithClauseContext =
  withSecurityEnforced_token :: "IToken option"
  withDataCategory_node :: "WithDataCategoryArrContext list option"

text \<open>
  What \<open>withClause\<close> returns: \<open>withSecurityEnforced\<close>, or \<open>withDataCategory\<close> with its
  \<open>conditions\<close> (\<open>undefined\<close> when the node has no \<open>withDataCategory\<close> child).
\<close>

datatype WithClauseOutput =
    WithSecurityEnforced
  | WithDataCategory "WithDataCategoryCondition list option"

definition withClause :: "WithClauseContext \<Rightarrow> WithClauseOutput" where
  "withClause ctx =
     (if withSecurityEnforced_token ctx \<noteq> None then WithSecurityEnforced
      else WithDataCategory (map_option (map withDataCategoryArr) (withDataCategory_node ctx)))"

text \<open>
  The \<open>field\<close> of a \<open>GROUP BY\<close>: a string, or an array (of strings, or of what
  \<open>groupByFieldList\<close> returned for each node).
\<close>

datatype GroupByField = GBString string | GBList "GroupByField list"

text \<open>The \<open>field\<close> array of a \<open>groupByFieldList\<close> node, as its first token and the rest.\<close>

definition groupByFieldList :: "IToken \<times> IToken list \<Rightarrow> GroupByField" where
  "groupByFieldList ctx_field =
     (if length (fst ctx_field # snd ctx_field) > 1
      then GBList (map (\<lambda>item. GBString (tokImage item)) (fst ctx_field # snd ctx_field))
      else GBString (tokImage (fst ctx_field)))"

fun truthy_groupByField :: "GroupByField \<Rightarrow> bool" where
  "truthy_groupByField (GBString s) = truthy_string s"
| "truthy_groupByField (GBList xs) = True"

datatype 's GroupByClauseContext = GroupByClauseContext
  (groupByFieldList_nodes: "(IToken \<times> IToken list) list option")
  (gb_fn_node: "FunctionNode option")
  (havingClause_node: "'s ConditionExpressionContext list option")

datatype 'q GroupByClause = GroupByClause
  (gb_field: "GroupByField option")
  (gb_fn: "FunctionExp option")
  (having: "'q WhereClause option")

definition groupByClause :: "'q option GroupByClauseContext \<Rightarrow> 'q GroupByClause option" where
  "groupByClause ctx =
     (let field = map_option (map groupByFieldList) (groupByFieldList_nodes ctx);
          field' = (case field of
                      None \<Rightarrow> None
                    | Some [x] \<Rightarrow> Some x
                    | Some xs \<Rightarrow> Some (GBList xs));
          field'' = (case field' of
                       None \<Rightarrow> None
                     | Some x \<Rightarrow> (if truthy_groupByField x then Some x else None))
      in (case havingClause_node ctx of
            None \<Rightarrow>
              Some (GroupByClause field''
                      (map_option (\<lambda>f. visitFunction f False) (gb_fn_node ctx)) None)
          | Some ces \<Rightarrow>
              (case havingClause ces of
                 None \<Rightarrow> None
               | Some h \<Rightarrow>
                   Some (GroupByClause field''
                           (map_option (\<lambda>f. visitFunction f False) (gb_fn_node ctx)) h))))"

record OrderByClause =
  ob_field :: "string option"
  ob_fn :: "FunctionExp option"
  ob_order :: "string option"
  ob_nulls :: "string option"

text \<open>
  An element of \<open>ctx.orderByExpressionOrFn\<close>: the node of one of the three rules, each
  with its optional \<open>order\<close> and \<open>nulls\<close> tokens.
\<close>

datatype OrderByNode =
    OrderByExpression IToken "IToken option" "IToken option"
  | OrderByFunctionExpression FieldFunctionContext "IToken option" "IToken option"
  | OrderByLocationExpression LocationFunctionContext "IToken option" "IToken option"

definition orderByExpression :: "IToken \<Rightarrow> IToken option \<Rightarrow> IToken option \<Rightarrow> OrderByClause" where
  "orderByExpression ctx_Identifier ctx_order ctx_nulls =
     \<lparr> ob_field = Some (tokImage ctx_Identifier), ob_fn = None,
       ob_order = map_option tokenType_name ctx_order,
       ob_nulls = map_option tokenType_name ctx_nulls \<rparr>"

definition orderByFunctionExpression ::
  "FieldFunctionContext \<Rightarrow> IToken option \<Rightarrow> IToken option \<Rightarrow> OrderByClause" where
  "orderByFunctionExpression ctx ctx_order ctx_nulls =
     \<lparr> ob_field = None, ob_fn = Some (getFieldFunction ctx False False),
       ob_order = map_option tokenType_name ctx_order,
       ob_nulls = map_option tokenType_name ctx_nulls \<rparr>"

definition orderByLocationExpression ::
  "LocationFunctionContext \<Rightarrow> IToken option \<Rightarrow> IToken option \<Rightarrow> OrderByClause" where
  "orderByLocationExpression ctx_locationFunction ctx_order ctx_nulls =
     \<lparr> ob_field = None, ob_fn = Some (visitFunction (LocationFunction ctx_locationFunction) False),
       ob_order = map_option tokenType_name ctx_order,
       ob_nulls = map_option tokenType_name ctx_nulls \<rparr>"

fun visitOrderBy :: "OrderByNode \<Rightarrow> OrderByClause" where
  "visitOrderBy (OrderByExpression i ord nul) = orderByExpression i ord nul"
| "visitOrderBy (OrderByFunctionExpression f ord nul) = orderByFunctionExpression f ord nul"
| "visitOrderBy (OrderByLocationExpression l ord nul) = orderByLocationExpression l ord nul"

text \<open>The \<open>orderBy\<close> attribute: one clause, or a sequence of clauses.\<close>

datatype OrderBy = OrderBySingle OrderByClause | OrderBySequence "OrderByClause list"

text \<open>\<open>this.visit\<close> of the array visits its first element.\<close>

definition orderByClause :: "OrderByNode list \<Rightarrow> OrderBy" where
  "orderByClause ctx_orderByExpressionOrFn =
     (if length ctx_orderByExpressionOrFn = 1
      then OrderBySingle (visitOrderBy (hd ctx_orderByExpressionOrFn))
      else OrderBySequence (map visitOrderBy ctx_orderByExpressionOrFn))"

section \<open>The select statement\<close>

text \<open>
  A \<open>selectStatement\<close> node. \<open>selectClause_field\<close> is the \<open>field\<close> array of its
  \<open>selectClause\<close> child, \<open>whereClause_node\<close> the \<open>conditionExpression\<close> array of its
  \<open>whereClause\<close> child, \<open>orderByClause_node\<close> the \<open>orderByExpressionOrFn\<close> array of
  its \<open>orderByClause\<close> child; the four last children are given by their one token.
\<close>

datatype SelectStatementContext = SelectStatementContext
  (selectClause_field: "SelectStatementContext SelectField list option")
  (fromClause_node: FromClauseContext)
  (usingScopeClause_token: "IToken option")
  (whereClause_node: "SelectStatementContext ConditionExpressionContext list option")
  (withClause_nodes: "WithClauseContext list")
  (groupByClause_node: "SelectStatementContext GroupByClauseContext option")
  (orderByClause_node: "OrderByNode list option")
  (limitClause_token: "IToken option")
  (offsetClause_token: "IToken option")
  (forViewOrReference_token: "IToken option")
  (updateTrackingViewstat_token: "IToken option")

text \<open>
  The output object of \<open>selectStatement\<close>, a \<open>Query\<close> or a \<open>Subquery\<close>: every key
  but \<open>fields\<close> is optional.
\<close>

datatype Query = Query
  (fields: "Query FieldType list")
  (sObject: "string option")
  (relationshipName: "string option")
  (sObjectAlias: "string option")
  (sObjectPrefix: "string list option")
  (usingScope: "string option")
  (where_clause: "Query WhereClause option")
  (withSecurityEnforced: "bool option")
  (withDataCategory: "WithDataCategoryCondition list option option")
  (groupBy: "Query GroupByClause option")
  (orderBy: "OrderBy option")
  (limit: "jsNumber option")
  (offset: "jsNumber option")
  (for_clause: "string option")
  (update_clause: "string option")

text \<open>
  Modelled from the spec: \<open>isSubqueryFromFlag\<close> is imported from \<open>../utils\<close>, which is
  not among the sources. By the spec, in subquery mode (\<open>isSubquery = true\<close>) the target
  of \<open>FROM\<close> is bound as \<open>relationshipName\<close> instead of \<open>sObject\<close>: it returns the flag.
\<close>

definition isSubqueryFromFlag :: "bool \<Rightarrow> bool" where
  "isSubqueryFromFlag isSubquery = isSubquery"

text \<open>The two \<open>forEach\<close> loops of \<open>selectStatement\<close>.\<close>

definition resolveAliases :: "string option \<Rightarrow> 'q FieldType list \<Rightarrow> 'q FieldType list" where
  "resolveAliases output_sObjectAlias output_fields =
     (case output_sObjectAlias of
        None \<Rightarrow> output_fields
      | Some a \<Rightarrow> (if truthy_string a then map (resolveAlias a) output_fields
                    else output_fields))"

fun withClauses ::
  "WithClauseContext list \<Rightarrow> bool option \<times> WithDataCategoryCondition list option option
     \<Rightarrow> bool option \<times> WithDataCategoryCondition list option option" where
  "withClauses [] acc = acc"
| "withClauses (item # rest) (wse, wdc) =
     (case withClause item of
        WithSecurityEnforced \<Rightarrow> withClauses rest (Some True, wdc)
      | WithDataCategory conditions \<Rightarrow> withClauses rest (wse, Some conditions))"

text \<open>
  The body of \<open>selectStatement\<close>, on the children of the node with their nested
  statements already visited. \<open>None\<close>: a visit raised.
\<close>

definition selectStatement_body ::
  "Query option SelectField list option \<Rightarrow> FromClauseContext \<Rightarrow> IToken option
     \<Rightarrow> Query option ConditionExpressionContext list option \<Rightarrow> WithClauseContext list
     \<Rightarrow> Query option GroupByClauseContext option \<Rightarrow> OrderByNode list option
     \<Rightarrow> IToken option \<Rightarrow> IToken option \<Rightarrow> IToken option \<Rightarrow> IToken option
     \<Rightarrow> bool \<Rightarrow> Query option" where
  "selectStatement_body ctx_selectClause ctx_fromClause ctx_usingScopeClause ctx_whereClause
     ctx_withClause ctx_groupByClause ctx_orderByClause ctx_limitClause ctx_offsetClause
     ctx_forViewOrReference ctx_updateTrackingViewstat isSubquery =
     (case selectClause ctx_selectClause of
        None \<Rightarrow> None
      | Some output_fields \<Rightarrow>
     (let from = fromClause ctx_fromClause;
          output_sObjectAlias =
            (case out_alias from of
               None \<Rightarrow> None
             | Some a \<Rightarrow> (if truthy_string a then Some a else None));
          output_fields' = resolveAliases output_sObjectAlias output_fields
      in
     (case (case ctx_whereClause of None \<Rightarrow> Some None | Some ces \<Rightarrow> whereClause ces) of
        None \<Rightarrow> None
      | Some output_where \<Rightarrow>
     (case (case ctx_groupByClause of
              None \<Rightarrow> Some None
            | Some g \<Rightarrow> map_option Some (groupByClause g)) of
        None \<Rightarrow> None
      | Some output_groupBy \<Rightarrow>
          Some (Query
            output_fields'
            (if isSubqueryFromFlag isSubquery then None else Some (out_sObject from))
            (if isSubqueryFromFlag isSubquery then Some (out_sObject from) else None)
            output_sObjectAlias
            (if isSubqueryFromFlag isSubquery then out_sObjectPrefix from else None)
            (map_option tokImage ctx_usingScopeClause)
            output_where
            (fst (withClauses ctx_withClause (None, None)))
            (snd (withClauses ctx_withClause (None, None)))
            output_groupBy
            (map_option orderByClause ctx_orderByClause)
            (map_option (\<lambda>t. Number (tokImage t)) ctx_limitClause)
            (map_option (\<lambda>t. Number (tokImage t)) ctx_offsetClause)
            (map_option tokenType_name ctx_forViewOrReference)
            (map_option tokenType_name ctx_updateTrackingViewstat))))))"

text \<open>
  \<open>selectStatement ctx isSubquery\<close>: a subquery of the select clause is visited with
  \<open>isSubquery: true\<close>, a subquery on the right of a condition (of \<open>WHERE\<close> or \<open>HAVING\<close>)
  with \<open>isSubquery: false\<close>.
\<close>

primrec selectStatement :: "SelectStatementContext \<Rightarrow> bool \<Rightarrow> Query option" where
  "selectStatement (SelectStatementContext sc fc us wc ws gb ob lim off fv ut) isSubquery =
     selectStatement_body
       (map_option (map (map_SelectField (\<lambda>s. selectStatement s True))) sc)
       fc us
       (map_option (map (map_ConditionExpressionContext (\<lambda>s. selectStatement s False))) wc)
       ws
       (map_option (map_GroupByClauseContext (\<lambda>s. selectStatement s False)) gb)
       ob lim off fv ut isSubquery"

section \<open>The two entry points\<close>

text \<open>
  \<open>parse\<close> (the lexer and the grammar, imported from \<open>./parser\<close>) is not among the
  sources: it is a parameter, which either raises (\<open>Inl\<close>) or returns the CST of the
  statement. What the entry points raise is a raise of \<open>parse\<close> or one of the visitor.
\<close>

datatype 'e Raised = ParseRaised 'e | VisitorRaised

definition parseQuery ::
  "(string \<Rightarrow> 'o \<Rightarrow> 'e + SelectStatementContext) \<Rightarrow> string \<Rightarrow> 'o \<Rightarrow> 'e Raised + Query" where
  "parseQuery parse soql options =
     (case parse soql options of
        Inl e \<Rightarrow> Inl (ParseRaised e)
      | Inr cst \<Rightarrow>
          (case selectStatement cst False of
             None \<Rightarrow> Inl VisitorRaised
           | Some query \<Rightarrow> Inr query))"

definition isQueryValid ::
  "(string \<Rightarrow> 'o \<Rightarrow> 'e + SelectStatementContext) \<Rightarrow> string \<Rightarrow> 'o \<Rightarrow> bool" where
  "isQueryValid parse soql options =
     (case parse soql options of Inl ex \<Rightarrow> False | Inr cst \<Rightarrow> True)"

section \<open>The configuration of the ANTLR entry point\<close>

text \<open>
  A configuration object of \<open>SoqlParser.ts\<close>: each key holds \<open>undefined\<close>, a boolean, or
  some other value.
\<close>

datatype jsValue = Undefined | Boolean bool | Other string

record SoqlQueryConfig =
  continueIfErrors :: jsValue
  logging :: jsValue
  includeSubqueryAsField :: jsValue

fun isBoolean :: "jsValue \<Rightarrow> bool" where
  "isBoolean (Boolean b) = True"
| "isBoolean other = False"

text \<open>\<open>configureDefaults\<close> assigns to the keys of the object it is given: the updated object.\<close>

definition configureDefaults :: "SoqlQueryConfig \<Rightarrow> SoqlQueryConfig" where
  "configureDefaults config =
     config
       \<lparr> continueIfErrors :=
           (if isBoolean (continueIfErrors config) then continueIfErrors config
            else Boolean False),
         logging :=
           (if isBoolean (logging config) then logging config else Boolean False),
         includeSubqueryAsField :=
           (if isBoolean (includeSubqueryAsField config) then includeSubqueryAsField config
            else Boolean True) \<rparr>"

text \<open>
  The caller's objects live in a store; \<open>parseQuery(soql, config)\<close> of \<open>SoqlParser.ts\<close>
  receives the address of \<open>config\<close>. The parser, the listener and the tree walker are not
  among the sources: \<open>walk\<close> stands for them, reads the configuration, and raises or
  returns the query. The result is the store after the call and the outcome.
\<close>

type_synonym store = "nat \<Rightarrow> SoqlQueryConfig"

definition SoqlParser_parseQuery ::
  "(string \<Rightarrow> SoqlQueryConfig \<Rightarrow> 'e + 'r) \<Rightarrow> store \<Rightarrow> string \<Rightarrow> nat \<Rightarrow> store \<times> ('e + 'r)" where
  "SoqlParser_parseQuery walk st soql config =
     (let st' = st(config := configureDefaults (st config))
      in (st', walk soql (st' config)))"

section \<open>Notions of the claims\<close>

text \<open>The keys \<open>type\<close> and \<open>field\<close> of a projected field.\<close>

fun typeKey :: "'q FieldType \<Rightarrow> string option" where
  "typeKey (Field f pfx al raw) = Some ''Field''"
| "typeKey (FieldRelationship f rels pfx al raw) = Some ''FieldRelationship''"
| "typeKey (FieldFunctionExpression fn) = fn_type fn"
| "typeKey (FieldSubquery q) = Some ''FieldSubquery''"
| "typeKey (FieldTypeof f conditions) = Some ''FieldTypeof''"

fun fieldKey :: "'q FieldType \<Rightarrow> string option" where
  "fieldKey (Field f pfx al raw) = Some f"
| "fieldKey (FieldRelationship f rels pfx al raw) = Some f"
| "fieldKey (FieldTypeof f conditions) = Some f"
| "fieldKey other = None"

text \<open>
  For an element of an array literal: the name of its token type (of the name token, for a
  date-N literal), the tag which that name is classified as, and, for a date-N literal whose
  variable is an unsigned integer, that integer.
\<close>

fun elementTokenType :: "ArrayItem \<Rightarrow> string" where
  "elementTokenType (ArrayToken t) = tokenType_name t"
| "elementTokenType (ArrayDateNLiteral d) = tokenType_name (dateNLiteral_token d)"

definition elementTag :: "ArrayItem \<Rightarrow> string" where
  "elementTag e = getLiteralTypeFromTokenType (elementTokenType e)"

text \<open>The elements of an array literal all have the same token type name.\<close>

definition sameTokenType :: "ArrayItem list \<Rightarrow> bool" where
  "sameTokenType elements \<longleftrightarrow>
     elements \<noteq> [] \<and> list_all (\<lambda>e. elementTokenType e = elementTokenType (hd elements)) elements"

fun dateNVariable :: "ArrayItem \<Rightarrow> nat option" where
  "dateNVariable (ArrayToken t) = None"
| "dateNVariable (ArrayDateNLiteral d) =
     (case Number (tokImage (variable_token d)) of Num n \<Rightarrow> Some n | NaN \<Rightarrow> None)"

text \<open>
  An \<open>atomicExpression\<close> node has an alternative when one of the children that the
  visitor tests is present; \<open>literalType\<close> is defined by the enumeration when it is one
  of its values, or a sequence of them.
\<close>

definition hasAlternative :: "'s AtomicExpressionContext \<Rightarrow> bool" where
  "hasAlternative ctx =
     (let k = tokens ctx in
      k_apexBindVariableExpression k \<noteq> None \<or> k_NumberIdentifier k \<noteq> None
      \<or> k_UnsignedInteger k \<noteq> None \<or> k_SignedInteger k \<noteq> None \<or> k_RealNumber k \<noteq> None
      \<or> k_DateIdentifier k \<noteq> None \<or> k_CurrencyPrefixedInteger k \<noteq> None
      \<or> k_CurrencyPrefixedDecimal k \<noteq> None \<or> k_DateTime k \<noteq> None \<or> k_date k \<noteq> None
      \<or> k_NULL k \<noteq> None \<or> k_StringIdentifier k \<noteq> None \<or> k_Identifier k \<noteq> None
      \<or> k_booleanValue k \<noteq> None \<or> k_DateLiteral k \<noteq> None \<or> k_dateNLiteral k \<noteq> None
      \<or> k_arrayExpression k \<noteq> None \<or> whereClauseSubqueryIdentifier ctx \<noteq> None)"

fun isLiteralType :: "LiteralTypeField \<Rightarrow> bool" where
  "isLiteralType (LTScalar t) = (t \<in> set LiteralType_values)"
| "isLiteralType (LTSeq ts) = list_all (\<lambda>t. t \<in> set LiteralType_values) ts"

text \<open>The sums of \<open>openParen\<close> and of \<open>closeParen\<close> along the \<open>right\<close> links of a chain.\<close>

fun sum_openParen :: "'q WhereClause \<Rightarrow> nat" where
  "sum_openParen (WhereClause l op None) = (case openParen l of None \<Rightarrow> 0 | Some n \<Rightarrow> n)"
| "sum_openParen (WhereClause l op (Some r)) =
     (case openParen l of None \<Rightarrow> 0 | Some n \<Rightarrow> n) + sum_openParen r"

fun sum_closeParen :: "'q WhereClause \<Rightarrow> nat" where
  "sum_closeParen (WhereClause l op None) = (case closeParen l of None \<Rightarrow> 0 | Some n \<Rightarrow> n)"
| "sum_closeParen (WhereClause l op (Some r)) =
     (case closeParen l of None \<Rightarrow> 0 | Some n \<Rightarrow> n) + sum_closeParen r"

text \<open>The numbers of \<open>(\<close> and \<open>)\<close> tokens in the condition expressions of a clause.\<close>

definition count_L_PAREN :: "'s ConditionExpressionContext list \<Rightarrow> nat" where
  "count_L_PAREN ces =
     sum_list (map (\<lambda>ce. case L_PAREN (expression_node ce) of None \<Rightarrow> 0
                          | Some ts \<Rightarrow> length ts) ces)"

definition count_R_PAREN :: "'s ConditionExpressionContext list \<Rightarrow> nat" where
  "count_R_PAREN ces =
     sum_list (map (\<lambda>ce. case R_PAREN (expression_node ce) of None \<Rightarrow> 0
                          | Some ts \<Rightarrow> length ts) ces)"

text \<open>
  Modelled from the spec: the grammar of \<open>WHERE\<close> and \<open>HAVING\<close> is in \<open>./parser\<close>, which
  is not among the sources. By the spec, parenthesis counts are recorded at each side of a
  condition and the total opens equal the total closes in a well-formed input.
\<close>

definition parens_balanced :: "'s ConditionExpressionContext list \<Rightarrow> bool" where
  "parens_balanced ces = (count_L_PAREN ces = count_R_PAREN ces)"

text \<open>
  The grammar is in \<open>./parser\<close>, which is not among the sources. A CST is well formed
  when none of its \<open>atomicExpression\<close> nodes, at any depth of nesting, has a \<open>date\<close>
  child without the \<open>DateToken\<close> child that the visitor then reads. The predicates take
  a node whose nested statements are replaced by their being well formed.
\<close>

definition wf_atomic :: "bool AtomicExpressionContext \<Rightarrow> bool" where
  "wf_atomic ctx \<longleftrightarrow>
     (k_date (tokens ctx) \<noteq> None \<longrightarrow> k_DateToken (tokens ctx) \<noteq> None)
     \<and> (case whereClauseSubqueryIdentifier ctx of None \<Rightarrow> True | Some ok \<Rightarrow> ok)"

definition wf_condition :: "bool ConditionExpressionContext \<Rightarrow> bool" where
  "wf_condition ce = wf_atomic (rhs (operator_node (expression_node ce)))"

fun wf_field :: "bool SelectField \<Rightarrow> bool" where
  "wf_field (SelectClauseSubqueryIdentifier ok) = ok"
| "wf_field other = True"

definition wf_groupBy :: "bool GroupByClauseContext \<Rightarrow> bool" where
  "wf_groupBy g =
     (case havingClause_node g of None \<Rightarrow> True | Some ces \<Rightarrow> list_all wf_condition ces)"

primrec wellFormed :: "SelectStatementContext \<Rightarrow> bool" where
  "wellFormed (SelectStatementContext sc fc us wc ws gb ob lim off fv ut) =
     ((case map_option (map (map_SelectField wellFormed)) sc of
         None \<Rightarrow> True
       | Some fs \<Rightarrow> list_all wf_field fs)
      \<and> (case map_option (map (map_ConditionExpressionContext wellFormed)) wc of
            None \<Rightarrow> True
          | Some ces \<Rightarrow> list_all wf_condition ces)
      \<and> (case map_option (map_GroupByClauseContext wellFormed) gb of
            None \<Rightarrow> True
          | Some g \<Rightarrow> wf_groupBy g))"

section \<open>Example inputs\<close>

text \<open>
  The CSTs of a few statements, for evaluating the visitor. The names of the token types
  of identifiers, numbers and keywords are those the visitor compares with.
\<close>

definition ident_token :: "string \<Rightarrow> IToken" where
  "ident_token img = \<lparr> tokImage = img, tokenType_name = ''Identifier'' \<rparr>"

definition keyword_token :: "string \<Rightarrow> IToken" where
  "keyword_token name = \<lparr> tokImage = name, tokenType_name = name \<rparr>"

definition typed_token :: "string \<Rightarrow> string \<Rightarrow> IToken" where
  "typed_token img name = \<lparr> tokImage = img, tokenType_name = name \<rparr>"

text \<open>\<open>SELECT fs FROM target [alias] [WHERE wc] [ORDER BY ob]\<close>.\<close>

definition statement ::
  "SelectStatementContext SelectField list \<Rightarrow> string \<Rightarrow> string option
     \<Rightarrow> SelectStatementContext ConditionExpressionContext list option
     \<Rightarrow> OrderByNode list option \<Rightarrow> SelectStatementContext" where
  "statement fs target alias wc ob =
     SelectStatementContext (Some fs)
       \<lparr> from_Identifier = ident_token target, from_alias = map_option ident_token alias \<rparr>
       None wc [] None ob None None None None"

text \<open>A condition \<open>field op rhs\<close> within \<open>opens\<close> and \<open>closes\<close> parentheses.\<close>

definition condition ::
  "IToken option \<Rightarrow> nat \<Rightarrow> string \<Rightarrow> string \<Rightarrow> AtomicExpressionTokens \<Rightarrow> nat
     \<Rightarrow> 's ConditionExpressionContext" where
  "condition logicalOp opens field_name op rhs_tokens closes =
     ConditionExpressionContext logicalOp
       (ExpressionContext None (LhsToken (ident_token field_name))
          (ExpressionOperatorContext (Some (keyword_token op)) None
             (AtomicExpressionContext rhs_tokens None))
          (if opens = 0 then None else Some (replicate opens (keyword_token ''('')))
          (if closes = 0 then None else Some (replicate closes (keyword_token '')''))))"

definition date_n :: "string \<Rightarrow> string \<Rightarrow> DateNLiteralContext" where
  "date_n name n =
     \<lparr> dateNLiteral_token = keyword_token name,
       variable_token = typed_token n ''UNSIGNED_INTEGER'' \<rparr>"

text \<open>\<open>DISTANCE(Location__c, GEOLOCATION(37.775, -122.418), 'mi')\<close>.\<close>

definition distance_call :: LocationFunctionContext where
  "distance_call =
     \<lparr> location1 = ident_token ''Location__c'',
       location2 = Location2Node
         \<lparr> latitude = typed_token ''37.775'' ''REAL_NUMBER'',
           longitude = typed_token ''-122.418'' ''REAL_NUMBER'' \<rparr>,
       unit_token = typed_token ''mi'' ''GeolocationUnit'' \<rparr>"

text \<open>A store whose object at address \<open>0\<close> is the caller's configuration.\<close>

definition caller_store :: store where
  "caller_store = (\<lambda>a. if a = 0
      then \<lparr> continueIfErrors = Undefined, logging = Other ''yes'',
             includeSubqueryAsField = Boolean False \<rparr>
      else \<lparr> continueIfErrors = Undefined, logging = Undefined,
             includeSubqueryAsField = Undefined \<rparr>)"

text \<open>\<open>SELECT Id FROM Account ORDER BY Name\<close> and \<open>... ORDER BY Name DESC, Id\<close>.\<close>

definition order_by_name :: SelectStatementContext where
  "order_by_name =
     statement [FieldToken (ident_token ''Id'')] ''Account'' None None
       (Some [OrderByExpression (ident_token ''Name'') None None])"

definition order_by_name_id :: SelectStatementContext where
  "order_by_name_id =
     statement [FieldToken (ident_token ''Id'')] ''Account'' None None
       (Some [OrderByExpression (ident_token ''Name'') (Some (keyword_token ''DESC'')) None,
              OrderByExpression (ident_token ''Id'') None None])"

text \<open>\<open>SELECT Id FROM ns.Account\<close>.\<close>

definition select_from_ns_account :: SelectStatementContext where
  "select_from_ns_account =
     statement [FieldToken (ident_token ''Id'')] ''ns.Account'' None None None"

text \<open>\<open>SELECT Id FROM Account ORDER BY DISTANCE(...)\<close> and \<open>... WHERE DISTANCE(...) < 20\<close>.\<close>

definition order_by_distance :: SelectStatementContext where
  "order_by_distance =
     statement [FieldToken (ident_token ''Id'')] ''Account'' None None
       (Some [OrderByLocationExpression distance_call None None])"

definition distance_less_than_20 :: "Query option ExpressionContext" where
  "distance_less_than_20 =
     ExpressionContext None (LhsFunction (LocationFunction distance_call))
       (ExpressionOperatorContext (Some (keyword_token ''<'')) None
          (AtomicExpressionContext
             (no_tokens\<lparr> k_NumberIdentifier := Some (typed_token ''20'' ''UNSIGNED_INTEGER'') \<rparr>)
             None))
       None None"

text \<open>\<open>SELECT Id FROM Account WHERE CreatedDate = LAST_N_DAYS:n\<close>.\<close>

definition created_in_last_n_days :: "string \<Rightarrow> SelectStatementContext" where
  "created_in_last_n_days n =
     statement [FieldToken (ident_token ''Id'')] ''Account'' None
       (Some [condition None 0 ''CreatedDate'' ''=''
                (no_tokens\<lparr> k_dateNLiteral := Some (date_n ''LAST_N_DAYS'' n) \<rparr>) 0])
       None"

text \<open>
  \<open>field IN (...)\<close>, with the arrays \<open>(TRUE, FALSE)\<close>, \<open>(1, -2)\<close>,
  \<open>(LAST_N_DAYS:2, TODAY)\<close> and \<open>('a', 'b')\<close>.
\<close>

definition in_array :: "string \<Rightarrow> ArrayItem list \<Rightarrow> Query option ExpressionContext" where
  "in_array field_name elements =
     ExpressionContext None (LhsToken (ident_token field_name))
       (ExpressionOperatorContext None (Some (keyword_token ''IN''))
          (AtomicExpressionContext (no_tokens\<lparr> k_arrayExpression := Some elements \<rparr>) None))
       None None"

definition true_false :: "ArrayItem list" where
  "true_false = [ArrayToken (keyword_token ''TRUE''), ArrayToken (keyword_token ''FALSE'')]"

definition one_minus_two :: "ArrayItem list" where
  "one_minus_two =
     [ArrayToken (typed_token ''1'' ''UNSIGNED_INTEGER''),
      ArrayToken (typed_token ''-2'' ''SIGNED_INTEGER'')]"

definition last_2_days_today :: "ArrayItem list" where
  "last_2_days_today =
     [ArrayDateNLiteral (date_n ''LAST_N_DAYS'' ''2''), ArrayToken (keyword_token ''TODAY'')]"

definition two_strings :: "ArrayItem list" where
  "two_strings =
     [ArrayToken (typed_token [CHR 0x27, CHR ''a'', CHR 0x27] ''StringIdentifier''),
      ArrayToken (typed_token [CHR 0x27, CHR ''b'', CHR 0x27] ''StringIdentifier'')]"

text \<open>The right-hand side \<open>'foo'\<close>.\<close>

definition string_foo :: "Query option AtomicExpressionContext" where
  "string_foo =
     AtomicExpressionContext
       (no_tokens\<lparr> k_StringIdentifier :=
          Some (typed_token [CHR 0x27, CHR ''f'', CHR ''o'', CHR ''o'', CHR 0x27]
                  ''StringIdentifier'') \<rparr>)
       None"

text \<open>\<open>SELECT a.a.Name FROM Account a\<close> and \<open>SELECT a.Id, a.Owner.Name n, Id FROM Account a\<close>.\<close>

definition select_a_a_name :: SelectStatementContext where
  "select_a_a_name =
     statement [FieldToken (ident_token ''a.a.Name'')] ''Account'' (Some ''a'') None None"

definition select_a_id_owner_name :: SelectStatementContext where
  "select_a_id_owner_name =
     statement
       [FieldToken (ident_token ''a.Id''),
        SelectClauseIdentifier (ident_token ''a.Owner.Name'') (Some (ident_token ''n'')),
        FieldToken (ident_token ''Id'')]
       ''Account'' (Some ''a'') None None"

text \<open>\<open>SELECT Id FROM Account WHERE (A = 1 AND B = 2) OR C = 3\<close>.\<close>

definition integer_rhs :: "string \<Rightarrow> AtomicExpressionTokens" where
  "integer_rhs n = no_tokens\<lparr> k_NumberIdentifier := Some (typed_token n ''UNSIGNED_INTEGER'') \<rparr>"

definition where_a_and_b_or_c :: SelectStatementContext where
  "where_a_and_b_or_c =
     statement [FieldToken (ident_token ''Id'')] ''Account'' None
       (Some [condition None 1 ''A'' ''='' (integer_rhs ''1'') 0,
              condition (Some (keyword_token ''AND'')) 0 ''B'' ''='' (integer_rhs ''2'') 1,
              condition (Some (keyword_token ''OR'')) 0 ''C'' ''='' (integer_rhs ''3'') 0])
       None"

text \<open>\<open>SELECT COUNT(Id) FROM Account GROUP BY Type HAVING (COUNT(Id) > 5)\<close>.\<close>

definition count_id :: FunctionNode where
  "count_id =
     AggregateFunction
       (FieldFunctionContext (keyword_token ''COUNT'')
          (Some [FunctionExpressionContext (Some [ParamToken (ident_token ''Id'')])]))"

definition having_count :: SelectStatementContext where
  "having_count =
     SelectStatementContext
       (Some [SelectClauseFunctionIdentifier count_id None])
       \<lparr> from_Identifier = ident_token ''Account'', from_alias = None \<rparr>
       None None []
       (Some (GroupByClauseContext (Some [(ident_token ''Type'', [])]) None
          (Some [ConditionExpressionContext None
                   (ExpressionContext None (LhsFunction count_id)
                      (ExpressionOperatorContext (Some (keyword_token ''>'')) None
                         (AtomicExpressionContext (integer_rhs ''5'') None))
                      (Some [keyword_token ''(''])
                      (Some [keyword_token '')'']))])))
       None None None None None"

text \<open>
  A stand-in for \<open>parse\<close>, which accepts the text \<open>SELECT Id FROM Account\<close> alone.
\<close>

definition toy_parse :: "string \<Rightarrow> unit \<Rightarrow> string + SelectStatementContext" where
  "toy_parse soql options =
     (if soql = ''SELECT Id FROM Account''
      then Inr (statement [FieldToken (ident_token ''Id'')] ''Account'' None None None)
      else Inl ''syntax error'')"

section \<open>Auxiliary facts\<close>

lemmas visitor_defs =
  selectStatement_body_def selectClause_def fromClause_def resolveAliases_def
  isSubqueryFromFlag_def identifierField_def selectClauseIdentifier_def
  includes_char_def truthy_string_def
  whereClause_def havingClause_def conditionExpression_def expression_def
  atomicExpression_def operatorOf_def relationalOperator_def setOperator_def
  scalarResult_def arrayResult_def arrayExpression_def dateNLiteral_def no_tokens_def
  literalTypeOfItem_def variableOrNull_def Number_def is_digit_def digit_val_def
  orderByClause_def orderByExpression_def orderByFunctionExpression_def
  orderByLocationExpression_def locationFunction_def geolocationFunction_def
  groupByClause_def groupByFieldList_def selectClauseFunctionIdentifier_def
  getLiteralTypeFromTokenType_def BOOLEANS_def DATE_LITERALS_def DATE_N_LITERALS_def
  Let_def

lemmas example_defs =
  ident_token_def keyword_token_def typed_token_def statement_def condition_def
  date_n_def distance_call_def order_by_name_def order_by_name_id_def
  select_from_ns_account_def order_by_distance_def distance_less_than_20_def
  created_in_last_n_days_def in_array_def true_false_def last_2_days_today_def one_minus_two_def
  two_strings_def string_foo_def select_a_a_name_def select_a_id_owner_name_def
  integer_rhs_def where_a_and_b_or_c_def toy_parse_def count_id_def having_count_def


subsection \<open>Splitting a dotted name\<close>

lemma split_not_includes: "\<not> includes_char s c \<Longrightarrow> split c s = [s]"
  by (induction s) (auto simp: includes_char_def)

lemma split_nonempty: "split c s \<noteq> []"
  by (induction s) (auto split: list.splits)

lemma split_append_separator:
  "c \<notin> set x \<Longrightarrow> split c (x @ [c] @ rest) = x # split c rest"
  by (induction x) (auto simp: split_nonempty split: list.splits)

lemma split_join:
  "segs \<noteq> [] \<Longrightarrow> \<forall>s \<in> set segs. c \<notin> set s \<Longrightarrow> split c (join [c] segs) = segs"
proof (induction "[c]" segs rule: join.induct)
  case 1
  then show ?case by simp
next
  case (2 x)
  then show ?case
    using split_not_includes[of x c] by (simp add: includes_char_def)
next
  case (3 x y ys)
  then show ?case
    using split_append_separator[of c x "join [c] (y # ys)"] by simp
qed

lemma includes_join: "2 \<le> length segs \<Longrightarrow> includes_char (join [c] segs) c"
  by (induction "[c]" segs rule: join.induct) (auto simp: includes_char_def)

lemma split_includes: "includes_char s c \<Longrightarrow> 2 \<le> length (split c s)"
proof (induction s)
  case Nil
  then show ?case by (simp add: includes_char_def)
next
  case (Cons x s)
  show ?case
  proof (cases "x = c")
    case True
    then show ?thesis using split_nonempty[of c s] by (cases "split c s") simp_all
  next
    case False
    then have "includes_char s c" using Cons.prems by (simp add: includes_char_def)
    then show ?thesis using Cons.IH False by (auto split: list.splits)
  qed
qed


subsection \<open>Maps that may raise\<close>

lemma map_raising_Some:
  "map_raising f xs = Some ys \<Longrightarrow>
     length ys = length xs \<and> (\<forall>i < length xs. f (xs ! i) = Some (ys ! i))"
proof (induction xs arbitrary: ys)
  case Nil
  then show ?case by simp
next
  case (Cons x xs)
  then obtain y ys' where y: "f x = Some y" and ys': "map_raising f xs = Some ys'"
    and ys: "ys = y # ys'"
    by (auto split: option.splits)
  show ?case
    using Cons.IH[OF ys'] y ys by (auto simp: nth_Cons split: nat.splits)
qed


subsection \<open>The token type names and their tags\<close>

lemma getLiteralTypeFromTokenType_nonempty: "truthy_string (getLiteralTypeFromTokenType t)"
  by (simp add: getLiteralTypeFromTokenType_def truthy_string_def)

lemma getLiteralTypeFromTokenType_value:
  "getLiteralTypeFromTokenType t \<in> set LiteralType_values"
  by (simp add: getLiteralTypeFromTokenType_def LiteralType_values_def)

lemma getLiteralTypeFromTokenType_not_subquery:
  "getLiteralTypeFromTokenType t \<noteq> ''SUBQUERY''"
  by (simp add: getLiteralTypeFromTokenType_def)

lemma LiteralType_values_simps:
  "''APEX_BIND_VARIABLE'' \<in> set LiteralType_values"
  "''INTEGER'' \<in> set LiteralType_values"
  "''DECIMAL'' \<in> set LiteralType_values"
  "''INTEGER_WITH_CURRENCY_PREFIX'' \<in> set LiteralType_values"
  "''DECIMAL_WITH_CURRENCY_PREFIX'' \<in> set LiteralType_values"
  "''DATETIME'' \<in> set LiteralType_values"
  "''DATE'' \<in> set LiteralType_values"
  "''NULL'' \<in> set LiteralType_values"
  "''STRING'' \<in> set LiteralType_values"
  "''BOOLEAN'' \<in> set LiteralType_values"
  "''DATE_LITERAL'' \<in> set LiteralType_values"
  "''DATE_N_LITERAL'' \<in> set LiteralType_values"
  "''SUBQUERY'' \<in> set LiteralType_values"
  by (simp_all add: LiteralType_values_def)


subsection \<open>The attributes of the built query\<close>

lemma fromClause_alias: "out_alias (fromClause fc) = map_option tokImage (from_alias fc)"
  by (simp add: fromClause_def Let_def)

lemma selectStatement_fields:
  assumes "selectStatement ctx isSubquery = Some q"
  shows "\<exists>fs0. selectClause (map_option (map (map_SelectField (\<lambda>s. selectStatement s True)))
                               (selectClause_field ctx)) = Some fs0
           \<and> Query.fields q = resolveAliases (sObjectAlias q) fs0
           \<and> sObjectAlias q =
               (case map_option tokImage (from_alias (fromClause_node ctx)) of
                  None \<Rightarrow> None
                | Some a \<Rightarrow> (if truthy_string a then Some a else None))"
  using assms
  by (cases ctx)
     (auto simp: selectStatement_body_def fromClause_alias Let_def split: option.splits)

lemma selectStatement_from:
  "selectStatement ctx isSubquery = Some q \<Longrightarrow>
     sObject q = (if isSubquery then None
                  else Some (out_sObject (fromClause (fromClause_node ctx)))) \<and>
     relationshipName q = (if isSubquery
                           then Some (out_sObject (fromClause (fromClause_node ctx)))
                           else None) \<and>
     sObjectPrefix q = (if isSubquery then out_sObjectPrefix (fromClause (fromClause_node ctx))
                        else None)"
  by (cases ctx)
     (auto simp: selectStatement_body_def isSubqueryFromFlag_def Let_def split: option.splits)

lemma selectStatement_where:
  assumes "selectStatement ctx isSubquery = Some q"
    and "whereClause_node ctx = Some ces"
  shows "whereClause (map (map_ConditionExpressionContext (\<lambda>s. selectStatement s False)) ces)
           = Some (where_clause q)"
  using assms
  by (cases ctx) (auto simp: selectStatement_body_def Let_def split: option.splits)

lemma selectStatement_having:
  assumes "selectStatement ctx isSubquery = Some q"
    and "groupByClause_node ctx = Some g"
    and "havingClause_node g = Some ces"
  shows "\<exists>gq. groupBy q = Some gq
           \<and> havingClause (map (map_ConditionExpressionContext (\<lambda>s. selectStatement s False)) ces)
               = Some (having gq)"
  using assms
  by (cases ctx; cases g)
     (auto simp: selectStatement_body_def groupByClause_def Let_def split: option.splits)

lemma selectStatement_orderBy:
  "selectStatement ctx isSubquery = Some q \<Longrightarrow>
     orderBy q = map_option orderByClause (orderByClause_node ctx)"
  by (cases ctx) (auto simp: selectStatement_body_def Let_def split: option.splits)


subsection \<open>Array literals\<close>

lemma remdups_one:
  "length (remdups xs) = 1 \<longleftrightarrow> xs \<noteq> [] \<and> (\<forall>x \<in> set xs. x = hd xs)"
proof
  assume "length (remdups xs) = 1"
  then have c: "card (set xs) = 1" by (simp add: length_remdups_card_conv)
  then obtain a where a: "set xs = {a}" by (auto simp: card_1_singleton_iff)
  then have "xs \<noteq> []" by auto
  moreover have "hd xs = a" using a \<open>xs \<noteq> []\<close> by (cases xs) auto
  ultimately show "xs \<noteq> [] \<and> (\<forall>x \<in> set xs. x = hd xs)" using a by auto
next
  assume h: "xs \<noteq> [] \<and> (\<forall>x \<in> set xs. x = hd xs)"
  then have "set xs = {hd xs}" by (cases xs) auto
  then have "card (set xs) = 1" by simp
  then show "length (remdups xs) = 1" by (simp add: length_remdups_card_conv)
qed

lemma item_type_arrayItem: "item_type (arrayItem e) = Some (elementTokenType e)"
  by (cases e) (simp_all add: dateNLiteral_def)

lemma literalTypeOfItem_arrayItem: "literalTypeOfItem (arrayItem e) = elementTag e"
  by (simp add: literalTypeOfItem_def item_type_arrayItem elementTag_def)

lemma variableOrNull_arrayItem:
  "variableOrNull (arrayItem e) =
     (case dateNVariable e of
        None \<Rightarrow> None
      | Some n \<Rightarrow> (if n = 0 then None else Some (Num n)))"
  by (cases e) (simp_all add: variableOrNull_def dateNLiteral_def split: jsNumber.splits)

lemma arrayResult_literalType:
  "ar_literalType (arrayResult elements) =
     Some (if sameTokenType elements then LTScalar (elementTag (hd elements))
           else LTSeq (map elementTag elements))"
proof -
  have types: "map item_type (map arrayItem elements) = map (\<lambda>e. Some (elementTokenType e)) elements"
    by (simp add: item_type_arrayItem)
  have one: "length (remdups (map (\<lambda>e. Some (elementTokenType e)) elements)) = 1
               \<longleftrightarrow> sameTokenType elements"
  proof (cases elements)
    case Nil
    then show ?thesis by (simp add: sameTokenType_def)
  next
    case (Cons a list)
    then show ?thesis unfolding sameTokenType_def remdups_one by (auto simp: list_all_iff)
  qed
  have tags: "map literalTypeOfItem (map arrayItem elements) = map elementTag elements"
    by (simp add: literalTypeOfItem_arrayItem)
  have hd: "sameTokenType elements \<Longrightarrow>
              literalTypeOfItem (hd (map arrayItem elements)) = elementTag (hd elements)"
    unfolding sameTokenType_def by (cases elements) (simp_all add: literalTypeOfItem_arrayItem)
  have ne: "truthy_string (elementTag e)" for e
    by (simp add: elementTag_def getLiteralTypeFromTokenType_nonempty)
  show ?thesis
    unfolding arrayResult_def arrayExpression_def Let_def types one tags
    using hd ne by simp
qed

lemma arrayResult_dateLiteralVariable:
  "ar_dateLiteralVariable (arrayResult elements) =
     (if \<exists>e \<in> set elements. \<exists>n. dateNVariable e = Some n \<and> n \<noteq> 0
      then Some (DLVArray (map (\<lambda>e. case dateNVariable e of
                                       None \<Rightarrow> None
                                     | Some n \<Rightarrow> (if n = 0 then None else Some (Num n)))
                               elements))
      else None)"
proof -
  have vs: "map variableOrNull (map arrayItem elements) =
        map (\<lambda>e. case dateNVariable e of None \<Rightarrow> None
                  | Some n \<Rightarrow> (if n = 0 then None else Some (Num n))) elements"
    by (simp add: variableOrNull_arrayItem)
  have ex: "list_ex (\<lambda>item. item \<noteq> None)
          (map (\<lambda>e. case dateNVariable e of None \<Rightarrow> None
                    | Some n \<Rightarrow> (if n = 0 then None else Some (Num n))) elements)
        \<longleftrightarrow> (\<exists>e \<in> set elements. \<exists>n. dateNVariable e = Some n \<and> n \<noteq> 0)"
    by (force simp: list_ex_iff split: option.splits if_splits)
  show ?thesis
    unfolding arrayResult_def arrayExpression_def Let_def vs ex by simp
qed

lemma arrayResult_isLiteralType:
  "\<exists>lt. ar_literalType (arrayResult elements) = Some lt \<and> isLiteralType lt"
  by (simp add: arrayResult_literalType elementTag_def getLiteralTypeFromTokenType_value
        list_all_iff)


section \<open>Alias resolution\<close>

lemma identifierField_relationships:
  "relationships (identifierField img :: 'q FieldType) = Some rels \<Longrightarrow>
     rels \<noteq> [] \<and> objectPrefix (identifierField img :: 'q FieldType) = None"
  using split_includes[of img "CHR ''.''"]
  by (cases "split CHR ''.'' img" rule: rev_cases)
     (auto simp: identifierField_def Let_def split: if_splits)

lemma setAlias_keys [simp]:
  "relationships (setAlias a f) = relationships f"
  "objectPrefix (setAlias a f) = objectPrefix f"
  by (cases f; simp)+

lemma selectField_relationships:
  fixes item :: "'q option SelectField"
  shows "selectField item = Some f \<Longrightarrow> relationships f = Some rels \<Longrightarrow>
     rels \<noteq> [] \<and> objectPrefix f = None"
  by (cases item)
     (auto dest: identifierField_relationships simp: selectClauseIdentifier_def selectClauseFunctionIdentifier_def
        selectClauseTypeOf_def Let_def split: option.splits if_splits)

lemma resolveAlias_first_segment:
  assumes "relationships f = Some rels0 \<longrightarrow> rels0 \<noteq> [] \<and> objectPrefix f = None"
    and "relationships (resolveAlias A f) = Some rels"
  shows "rels \<noteq> [] \<and> (hd rels = A \<longrightarrow> objectPrefix (resolveAlias A f) = Some A)"
  using assms
  by (cases f) (auto simp: Let_def split: if_splits list.splits)

lemma identifierField_join:
  assumes "segs \<noteq> []" and "\<forall>s \<in> set (segs @ [name]). CHR ''.'' \<notin> set s"
  shows "identifierField (join ''.'' (segs @ [name]))
           = FieldRelationship name segs None None (join ''.'' (segs @ [name]))"
proof -
  have len: "2 \<le> length (segs @ [name])"
    using assms(1) by (cases segs) auto
  have sp: "split CHR ''.'' (join ''.'' (segs @ [name])) = segs @ [name]"
    using split_join[of "segs @ [name]" "CHR ''.''"] assms(2) by simp
  have inc: "includes_char (join ''.'' (segs @ [name])) CHR ''.''"
    using includes_join[OF len] by simp
  show ?thesis
    using sp inc by (simp add: identifierField_def Let_def)
qed

lemma resolveAlias_dotted:
  assumes "segs \<noteq> []"
  shows "hd segs = A \<longrightarrow>
           objectPrefix (resolveAlias A (FieldRelationship name segs None al raw)) = Some A
           \<and> relationships (resolveAlias A (FieldRelationship name segs None al raw))
               = (if tl segs = [] then None else Some (tl segs))
           \<and> typeKey (resolveAlias A (FieldRelationship name segs None al raw))
               = Some (if tl segs = [] then ''Field'' else ''FieldRelationship'')
           \<and> fieldKey (resolveAlias A (FieldRelationship name segs None al raw)) = Some name"
    and "hd segs \<noteq> A \<longrightarrow>
           objectPrefix (resolveAlias A (FieldRelationship name segs None al raw)) = None
           \<and> relationships (resolveAlias A (FieldRelationship name segs None al raw)) = Some segs
           \<and> typeKey (resolveAlias A (FieldRelationship name segs None al raw))
               = Some ''FieldRelationship''"
  using assms by (cases segs; simp add: Let_def)+

lemma selectField_identifier:
  "selectField (map_SelectField g (FieldToken t)) = Some (identifierField (tokImage t))"
  "\<exists>al. selectField (map_SelectField g (SelectClauseIdentifier t ctx_alias))
          = Some (case identifierField (tokImage t) of
                    FieldRelationship f rels pfx a raw \<Rightarrow> FieldRelationship f rels pfx al raw
                  | Field f pfx a raw \<Rightarrow> Field f pfx al raw
                  | other \<Rightarrow> other)"
proof -
  show "selectField (map_SelectField g (FieldToken t)) = Some (identifierField (tokImage t))"
    by simp
  show "\<exists>al. selectField (map_SelectField g (SelectClauseIdentifier t ctx_alias))
          = Some (case identifierField (tokImage t) of
                    FieldRelationship f rels pfx a raw \<Rightarrow> FieldRelationship f rels pfx al raw
                  | Field f pfx a raw \<Rightarrow> Field f pfx al raw
                  | other \<Rightarrow> other)"
  proof (cases "\<exists>a. ctx_alias = Some a \<and> truthy_string (tokImage a)")
    case True
    then obtain a where "ctx_alias = Some a" "truthy_string (tokImage a)" by blast
    then show ?thesis
      by (intro exI[of _ "Some (tokImage a)"])
         (simp add: selectClauseIdentifier_def identifierField_def Let_def)
  next
    case False
    then show ?thesis
      by (intro exI[of _ None])
         (auto simp: selectClauseIdentifier_def identifierField_def Let_def
               split: option.splits)
  qed
qed

lemma selectClause_Some:
  assumes "selectClause sc = Some fs0"
  shows "\<forall>f0 \<in> set fs0. \<exists>item. selectField item = Some f0"
    and "\<forall>items. sc = Some items \<longrightarrow>
           length fs0 = length items \<and> (\<forall>i < length items. selectField (items ! i) = Some (fs0 ! i))"
proof -
  show "\<forall>items. sc = Some items \<longrightarrow>
           length fs0 = length items \<and> (\<forall>i < length items. selectField (items ! i) = Some (fs0 ! i))"
  proof (cases sc)
    case None
    then show ?thesis by simp
  next
    case (Some items)
    then have "map_raising selectField items = Some fs0"
      using assms by (simp add: selectClause_def)
    then show ?thesis
      using map_raising_Some[of selectField items fs0] Some by simp
  qed
  show "\<forall>f0 \<in> set fs0. \<exists>item. selectField item = Some f0"
  proof (cases sc)
    case None
    then show ?thesis using assms by (simp add: selectClause_def)
  next
    case (Some items)
    then have m: "map_raising selectField items = Some fs0"
      using assms by (simp add: selectClause_def)
    show ?thesis
    proof
      fix f0 assume "f0 \<in> set fs0"
      then obtain i where "i < length fs0" "fs0 ! i = f0" by (auto simp: in_set_conv_nth)
      then show "\<exists>item. selectField item = Some f0"
        using map_raising_Some[OF m] by (intro exI[of _ "items ! i"]) simp
    qed
  qed
qed

text \<open>
  C1, as stated, fails: for \<open>SELECT a.a.Name FROM Account a\<close> the one projected field is
  a \<open>FieldRelationship\<close> whose first relationships segment is the alias \<open>a\<close>.
\<close>

theorem alias_repeated_counterexample:
  "selectStatement select_a_a_name False \<noteq> None
   \<and> sObjectAlias (the (selectStatement select_a_a_name False)) = Some ''a''
   \<and> Query.fields (the (selectStatement select_a_a_name False))
       = [FieldRelationship ''Name'' [''a''] (Some ''a'') None ''a.a.Name'']
   \<and> map_option hd (relationships (hd (Query.fields (the (selectStatement select_a_a_name False)))))
       = Some ''a''"
  by (simp add: example_defs visitor_defs)

text \<open>
  C1, amended. When the statement has the alias \<open>A\<close>, the pass removes one leading
  segment \<open>A\<close> from the path of a projected field, once. After the visit, a projected
  field with a \<open>relationships\<close> key has a non-empty one, and if its first segment is
  \<open>A\<close> then the field has \<open>objectPrefix = A\<close> (one \<open>A\<close> was removed before it). A field
  written as the dotted path \<open>s1. ... .sn.name\<close> with \<open>s1 = A\<close> has \<open>objectPrefix = A\<close>
  and the relationships \<open>s2, ..., sn\<close>, and when these are none it has no \<open>relationships\<close>
  key and the type \<open>Field\<close>; with \<open>s1\<close> another name it keeps all its segments and has no
  \<open>objectPrefix\<close>.
\<close>

theorem alias_resolution:
  assumes q: "selectStatement ctx isSubquery = Some q"
    and al: "map_option tokImage (from_alias (fromClause_node ctx)) = Some A"
    and ne: "A \<noteq> []"
  shows "sObjectAlias q = Some A
    \<and> (\<forall>f \<in> set (Query.fields q). \<forall>rels. relationships f = Some rels \<longrightarrow>
          rels \<noteq> [] \<and> (hd rels = A \<longrightarrow> objectPrefix f = Some A))
    \<and> (\<forall>items. selectClause_field ctx = Some items \<longrightarrow>
          length (Query.fields q) = length items
          \<and> (\<forall>i < length items. \<forall>t segs name.
                (items ! i = FieldToken t \<or> (\<exists>ctx_alias. items ! i = SelectClauseIdentifier t ctx_alias))
                \<and> tokImage t = join ''.'' (segs @ [name]) \<and> segs \<noteq> []
                \<and> (\<forall>s \<in> set (segs @ [name]). CHR ''.'' \<notin> set s)
                \<longrightarrow> fieldKey (Query.fields q ! i) = Some name
                  \<and> (hd segs = A \<longrightarrow>
                        objectPrefix (Query.fields q ! i) = Some A
                        \<and> relationships (Query.fields q ! i)
                            = (if tl segs = [] then None else Some (tl segs))
                        \<and> typeKey (Query.fields q ! i)
                            = Some (if tl segs = [] then ''Field'' else ''FieldRelationship''))
                  \<and> (hd segs \<noteq> A \<longrightarrow>
                        objectPrefix (Query.fields q ! i) = None
                        \<and> relationships (Query.fields q ! i) = Some segs
                        \<and> typeKey (Query.fields q ! i) = Some ''FieldRelationship'')))"
proof -
  define g where "g = (\<lambda>s. selectStatement s True)"
  obtain fs0 where sc: "selectClause (map_option (map (map_SelectField g)) (selectClause_field ctx)) = Some fs0"
    and fq: "Query.fields q = resolveAliases (sObjectAlias q) fs0"
    and sa: "sObjectAlias q =
               (case map_option tokImage (from_alias (fromClause_node ctx)) of
                  None \<Rightarrow> None
                | Some a \<Rightarrow> (if truthy_string a then Some a else None))"
    using selectStatement_fields[OF q] unfolding g_def by blast
  have qa: "sObjectAlias q = Some A"
    using sa al ne by (simp add: truthy_string_def)
  have fields: "Query.fields q = map (resolveAlias A) fs0"
    using fq qa ne by (simp add: resolveAliases_def truthy_string_def)
  have first: "\<forall>f \<in> set (Query.fields q). \<forall>rels. relationships f = Some rels \<longrightarrow>
          rels \<noteq> [] \<and> (hd rels = A \<longrightarrow> objectPrefix f = Some A)"
  proof (intro ballI allI impI)
    fix f rels
    assume f: "f \<in> set (Query.fields q)" and r: "relationships f = Some rels"
    then obtain f0 where f0: "f0 \<in> set fs0" and ff: "f = resolveAlias A f0"
      using fields by auto
    obtain item where item: "selectField item = Some f0"
      using selectClause_Some(1)[OF sc] f0 by blast
    have "\<forall>rels0. relationships f0 = Some rels0 \<longrightarrow> rels0 \<noteq> [] \<and> objectPrefix f0 = None"
      using selectField_relationships[OF item] by blast
    then show "rels \<noteq> [] \<and> (hd rels = A \<longrightarrow> objectPrefix f = Some A)"
      using resolveAlias_first_segment[of f0 _ A rels] r ff
      by (cases "relationships f0") (auto simp: Let_def)
  qed
  have paths: "\<forall>items. selectClause_field ctx = Some items \<longrightarrow>
          length (Query.fields q) = length items
          \<and> (\<forall>i < length items. \<forall>t segs name.
                (items ! i = FieldToken t \<or> (\<exists>ctx_alias. items ! i = SelectClauseIdentifier t ctx_alias))
                \<and> tokImage t = join ''.'' (segs @ [name]) \<and> segs \<noteq> []
                \<and> (\<forall>s \<in> set (segs @ [name]). CHR ''.'' \<notin> set s)
                \<longrightarrow> fieldKey (Query.fields q ! i) = Some name
                  \<and> (hd segs = A \<longrightarrow>
                        objectPrefix (Query.fields q ! i) = Some A
                        \<and> relationships (Query.fields q ! i)
                            = (if tl segs = [] then None else Some (tl segs))
                        \<and> typeKey (Query.fields q ! i)
                            = Some (if tl segs = [] then ''Field'' else ''FieldRelationship''))
                  \<and> (hd segs \<noteq> A \<longrightarrow>
                        objectPrefix (Query.fields q ! i) = None
                        \<and> relationships (Query.fields q ! i) = Some segs
                        \<and> typeKey (Query.fields q ! i) = Some ''FieldRelationship''))"
  proof (intro allI impI)
    fix items
    assume items: "selectClause_field ctx = Some items"
    have len: "length fs0 = length items"
      and nth: "\<forall>i < length items. selectField (map_SelectField g (items ! i)) = Some (fs0 ! i)"
      using selectClause_Some(2)[OF sc] items by simp_all
    have each: "\<forall>i < length items. \<forall>t segs name.
                (items ! i = FieldToken t \<or> (\<exists>ctx_alias. items ! i = SelectClauseIdentifier t ctx_alias))
                \<and> tokImage t = join ''.'' (segs @ [name]) \<and> segs \<noteq> []
                \<and> (\<forall>s \<in> set (segs @ [name]). CHR ''.'' \<notin> set s)
                \<longrightarrow> fieldKey (Query.fields q ! i) = Some name
                  \<and> (hd segs = A \<longrightarrow>
                        objectPrefix (Query.fields q ! i) = Some A
                        \<and> relationships (Query.fields q ! i)
                            = (if tl segs = [] then None else Some (tl segs))
                        \<and> typeKey (Query.fields q ! i)
                            = Some (if tl segs = [] then ''Field'' else ''FieldRelationship''))
                  \<and> (hd segs \<noteq> A \<longrightarrow>
                        objectPrefix (Query.fields q ! i) = None
                        \<and> relationships (Query.fields q ! i) = Some segs
                        \<and> typeKey (Query.fields q ! i) = Some ''FieldRelationship'')"
    proof (intro allI impI)
      fix i t segs name
      assume i: "i < length items"
        and h: "(items ! i = FieldToken t \<or> (\<exists>ctx_alias. items ! i = SelectClauseIdentifier t ctx_alias))
                  \<and> tokImage t = join ''.'' (segs @ [name]) \<and> segs \<noteq> []
                  \<and> (\<forall>s \<in> set (segs @ [name]). CHR ''.'' \<notin> set s)"
      have idf: "identifierField (tokImage t)
             = (FieldRelationship name segs None None (join ''.'' (segs @ [name])) :: Query FieldType)"
        using identifierField_join[of segs name] h by simp
      have sf: "selectField (map_SelectField g (items ! i)) = Some (fs0 ! i)"
        using nth i by blast
      have "\<exists>a. fs0 ! i = FieldRelationship name segs None a (join ''.'' (segs @ [name]))"
      proof -
        from h consider (tok) "items ! i = FieldToken t"
          | (sci) ca where "items ! i = SelectClauseIdentifier t ca"
          by blast
        then show ?thesis
        proof cases
          case tok
          then have "Some (fs0 ! i) = Some (identifierField (tokImage t))"
            using sf selectField_identifier(1)[of g t] by simp
          then show ?thesis unfolding idf by auto
        next
          case sci
          obtain al' where
            "selectField (map_SelectField g (SelectClauseIdentifier t ca))
               = Some (case identifierField (tokImage t) of
                         FieldRelationship f rels pfx a raw \<Rightarrow> FieldRelationship f rels pfx al' raw
                       | Field f pfx a raw \<Rightarrow> Field f pfx al' raw
                       | other \<Rightarrow> other)"
            using selectField_identifier(2)[of g t ca] by blast
          then show ?thesis using sf sci unfolding idf by (intro exI[of _ al']) simp
        qed
      qed
      then obtain a where a: "fs0 ! i = FieldRelationship name segs None a (join ''.'' (segs @ [name]))"
        by blast
      have fi: "Query.fields q ! i
                  = resolveAlias A (FieldRelationship name segs None a (join ''.'' (segs @ [name])))"
        using fields i len a by simp
      have segs: "segs \<noteq> []" using h by simp
      have k1: "fieldKey (Query.fields q ! i) = Some name"
        unfolding fi using segs by (cases segs) (simp_all add: Let_def)
      have k2: "hd segs = A \<longrightarrow>
              objectPrefix (Query.fields q ! i) = Some A
              \<and> relationships (Query.fields q ! i) = (if tl segs = [] then None else Some (tl segs))
              \<and> typeKey (Query.fields q ! i)
                  = Some (if tl segs = [] then ''Field'' else ''FieldRelationship'')"
        unfolding fi using resolveAlias_dotted(1)[OF segs, of A name a] by blast
      have k3: "hd segs \<noteq> A \<longrightarrow>
              objectPrefix (Query.fields q ! i) = None
              \<and> relationships (Query.fields q ! i) = Some segs
              \<and> typeKey (Query.fields q ! i) = Some ''FieldRelationship''"
        unfolding fi using resolveAlias_dotted(2)[OF segs, of A name a] by blast
      show "fieldKey (Query.fields q ! i) = Some name
              \<and> (hd segs = A \<longrightarrow>
                    objectPrefix (Query.fields q ! i) = Some A
                    \<and> relationships (Query.fields q ! i)
                        = (if tl segs = [] then None else Some (tl segs))
                    \<and> typeKey (Query.fields q ! i)
                        = Some (if tl segs = [] then ''Field'' else ''FieldRelationship''))
              \<and> (hd segs \<noteq> A \<longrightarrow>
                    objectPrefix (Query.fields q ! i) = None
                    \<and> relationships (Query.fields q ! i) = Some segs
                    \<and> typeKey (Query.fields q ! i) = Some ''FieldRelationship'')"
        using k1 k2 k3 by (intro conjI)
    qed
    show "length (Query.fields q) = length items \<and> (\<forall>i < length items. \<forall>t segs name.
                (items ! i = FieldToken t \<or> (\<exists>ctx_alias. items ! i = SelectClauseIdentifier t ctx_alias))
                \<and> tokImage t = join ''.'' (segs @ [name]) \<and> segs \<noteq> []
                \<and> (\<forall>s \<in> set (segs @ [name]). CHR ''.'' \<notin> set s)
                \<longrightarrow> fieldKey (Query.fields q ! i) = Some name
                  \<and> (hd segs = A \<longrightarrow>
                        objectPrefix (Query.fields q ! i) = Some A
                        \<and> relationships (Query.fields q ! i)
                            = (if tl segs = [] then None else Some (tl segs))
                        \<and> typeKey (Query.fields q ! i)
                            = Some (if tl segs = [] then ''Field'' else ''FieldRelationship''))
                  \<and> (hd segs \<noteq> A \<longrightarrow>
                        objectPrefix (Query.fields q ! i) = None
                        \<and> relationships (Query.fields q ! i) = Some segs
                        \<and> typeKey (Query.fields q ! i) = Some ''FieldRelationship''))"
      using len fields each by (intro conjI) simp
  qed
  show ?thesis
    using qa first paths by (intro conjI)
qed

theorem alias_resolution_witness:
  "selectStatement select_a_id_owner_name False \<noteq> None
   \<and> map_option tokImage (from_alias (fromClause_node select_a_id_owner_name)) = Some ''a''
   \<and> sObjectAlias (the (selectStatement select_a_id_owner_name False)) = Some ''a''
   \<and> Query.fields (the (selectStatement select_a_id_owner_name False))
       = [Field ''Id'' (Some ''a'') None (Some ''a.Id''),
          FieldRelationship ''Name'' [''Owner''] (Some ''a'') (Some ''n'') ''a.Owner.Name'',
          Field ''Id'' None None None]"
  using alias_resolution
          [of select_a_id_owner_name False "the (selectStatement select_a_id_owner_name False)"
              "''a''"]
  by (simp add: example_defs visitor_defs)


section \<open>Validity\<close>

lemma atomicExpression_returns:
  assumes "\<And>s. s \<in> set_AtomicExpressionContext a \<Longrightarrow> w s \<Longrightarrow> v s \<noteq> None"
    and "wf_atomic (map_AtomicExpressionContext w a)"
  shows "atomicExpression (map_AtomicExpressionContext v a) \<noteq> None"
proof (cases a)
  case (AtomicExpressionContext k sub)
  then show ?thesis
    using assms
    by (cases sub) (auto simp: atomicExpression_def wf_atomic_def Let_def split: option.splits)
qed

lemma conditionExpression_returns:
  assumes "\<And>s. s \<in> set_ConditionExpressionContext ce \<Longrightarrow> w s \<Longrightarrow> v s \<noteq> None"
    and "wf_condition (map_ConditionExpressionContext w ce)"
  shows "conditionExpression (map_ConditionExpressionContext v ce) \<noteq> None"
proof -
  define a where "a = rhs (operator_node (expression_node ce))"
  have sub: "set_AtomicExpressionContext a \<subseteq> set_ConditionExpressionContext ce"
    unfolding a_def
    by (auto intro: ConditionExpressionContext.set_sel ExpressionContext.set_sel
          ExpressionOperatorContext.set_sel)
  have "wf_atomic (map_AtomicExpressionContext w a)"
    using assms(2)
    by (simp add: wf_condition_def a_def ConditionExpressionContext.map_sel
          ExpressionContext.map_sel ExpressionOperatorContext.map_sel)
  then have "atomicExpression (map_AtomicExpressionContext v a) \<noteq> None"
    using atomicExpression_returns[of a w v] assms(1) sub by blast
  then show ?thesis
    by (auto simp: conditionExpression_def expression_def a_def Let_def
          ConditionExpressionContext.map_sel ExpressionContext.map_sel
          ExpressionOperatorContext.map_sel)
qed

lemma reduce_conditions_returns:
  "\<forall>ce \<in> set ces. conditionExpression ce \<noteq> None \<Longrightarrow> reduce_conditions acc ces \<noteq> None"
  by (induction ces arbitrary: acc) (auto split: option.splits)

lemma conditions_return:
  assumes "\<And>ce s. ce \<in> set ces \<Longrightarrow> s \<in> set_ConditionExpressionContext ce \<Longrightarrow> w s
             \<Longrightarrow> v s \<noteq> None"
    and "list_all wf_condition (map (map_ConditionExpressionContext w) ces)"
  shows "reduce_conditions None (map (map_ConditionExpressionContext v) ces) \<noteq> None"
proof (rule reduce_conditions_returns, rule ballI)
  fix ce'
  assume "ce' \<in> set (map (map_ConditionExpressionContext v) ces)"
  then obtain ce where ce: "ce \<in> set ces" and ce': "ce' = map_ConditionExpressionContext v ce"
    by auto
  have "wf_condition (map_ConditionExpressionContext w ce)"
    using assms(2) ce by (simp add: list_all_iff)
  then show "conditionExpression ce' \<noteq> None"
    unfolding ce' using conditionExpression_returns[of ce w v] assms(1)[OF ce] by blast
qed

lemma groupByClause_returns:
  assumes "\<And>s. s \<in> set_GroupByClauseContext g \<Longrightarrow> w s \<Longrightarrow> v s \<noteq> None"
    and "wf_groupBy (map_GroupByClauseContext w g)"
  shows "groupByClause (map_GroupByClauseContext v g) \<noteq> None"
proof (cases "havingClause_node g")
  case None
  then show ?thesis
    by (simp add: groupByClause_def Let_def GroupByClauseContext.map_sel)
next
  case (Some ces)
  have all: "list_all wf_condition (map (map_ConditionExpressionContext w) ces)"
    using assms(2) Some by (simp add: wf_groupBy_def GroupByClauseContext.map_sel)
  have "reduce_conditions None (map (map_ConditionExpressionContext v) ces) \<noteq> None"
  proof (rule conditions_return[where w = w])
    fix ce s
    assume "ce \<in> set ces" "s \<in> set_ConditionExpressionContext ce" "w s"
    then show "v s \<noteq> None"
      using assms(1) Some GroupByClauseContext.set_sel[of ces g ce s] by simp
  qed (rule all)
  then show ?thesis
    using Some
    by (auto simp: groupByClause_def havingClause_def Let_def GroupByClauseContext.map_sel)
qed

lemma selectClause_returns:
  assumes "\<And>item s. item \<in> set items \<Longrightarrow> s \<in> set_SelectField item \<Longrightarrow> w s
             \<Longrightarrow> v s \<noteq> None"
    and "list_all wf_field (map (map_SelectField w) items)"
  shows "map_raising selectField (map (map_SelectField v) items) \<noteq> None"
  using assms
proof (induction items)
  case Nil
  then show ?case by simp
next
  case (Cons item items)
  have "selectField (map_SelectField v item) \<noteq> None"
  proof (cases item)
    case (SelectClauseSubqueryIdentifier s)
    then have "w s" using Cons.prems(2) by simp
    then have "v s \<noteq> None"
      using Cons.prems(1)[of item s] SelectClauseSubqueryIdentifier by simp
    then show ?thesis using SelectClauseSubqueryIdentifier by auto
  qed simp_all
  moreover have "map_raising selectField (map (map_SelectField v) items) \<noteq> None"
  proof (rule Cons.IH)
    fix item' s
    assume "item' \<in> set items" "s \<in> set_SelectField item'" "w s"
    then show "v s \<noteq> None" using Cons.prems(1)[of item' s] by simp
  next
    show "list_all wf_field (map (map_SelectField w) items)"
      using Cons.prems(2) by simp
  qed
  ultimately show ?case by auto
qed

lemma selectStatement_returns: "wellFormed ctx \<Longrightarrow> selectStatement ctx b \<noteq> None"
proof (induction ctx arbitrary: b)
  case (SelectStatementContext sc fc us wc ws gb ob lim off fv ut)
  have fields: "selectClause (map_option (map (map_SelectField (\<lambda>s. selectStatement s True))) sc)
                  \<noteq> None"
  proof (cases sc)
    case None
    then show ?thesis by (simp add: selectClause_def)
  next
    case (Some items)
    have "map_raising selectField (map (map_SelectField (\<lambda>s. selectStatement s True)) items)
            \<noteq> None"
    proof (rule selectClause_returns[where w = wellFormed])
      fix item s
      assume "item \<in> set items" "s \<in> set_SelectField item" "wellFormed s"
      then show "selectStatement s True \<noteq> None"
        using SelectStatementContext.IH(1)[of items item s True] Some by simp
    next
      show "list_all wf_field (map (map_SelectField wellFormed) items)"
        using SelectStatementContext.prems Some by simp
    qed
    then show ?thesis using Some by (simp add: selectClause_def)
  qed
  have "where": "(case map_option (map (map_ConditionExpressionContext (\<lambda>s. selectStatement s False))) wc of
                  None \<Rightarrow> Some None | Some ces \<Rightarrow> whereClause ces) \<noteq> None"
  proof (cases wc)
    case None
    then show ?thesis by simp
  next
    case (Some ces)
    have "reduce_conditions None
            (map (map_ConditionExpressionContext (\<lambda>s. selectStatement s False)) ces) \<noteq> None"
    proof (rule conditions_return[where w = wellFormed])
      fix ce s
      assume "ce \<in> set ces" "s \<in> set_ConditionExpressionContext ce" "wellFormed s"
      then show "selectStatement s False \<noteq> None"
        using SelectStatementContext.IH(2)[of ces ce s False] Some by simp
    next
      show "list_all wf_condition (map (map_ConditionExpressionContext wellFormed) ces)"
        using SelectStatementContext.prems Some by simp
    qed
    then show ?thesis using Some by (simp add: whereClause_def)
  qed
  have groupBy: "(case map_option (map_GroupByClauseContext (\<lambda>s. selectStatement s False)) gb of
                    None \<Rightarrow> Some None | Some g \<Rightarrow> map_option Some (groupByClause g)) \<noteq> None"
  proof (cases gb)
    case None
    then show ?thesis by simp
  next
    case (Some g)
    have "groupByClause (map_GroupByClauseContext (\<lambda>s. selectStatement s False) g) \<noteq> None"
    proof (rule groupByClause_returns[where w = wellFormed])
      fix s
      assume "s \<in> set_GroupByClauseContext g" "wellFormed s"
      then show "selectStatement s False \<noteq> None"
        using SelectStatementContext.IH(3)[of g s False] Some by simp
    next
      show "wf_groupBy (map_GroupByClauseContext wellFormed g)"
        using SelectStatementContext.prems Some by simp
    qed
    then show ?thesis using Some by simp
  qed
  show ?case
    using fields "where" groupBy
    by (auto simp: selectStatement_body_def Let_def split: option.splits)
qed

text \<open>
  C2. Whatever \<open>parse\<close> is, provided the CSTs it returns are well formed:
  \<open>isQueryValid(q)\<close>, which always returns a boolean, is \<open>true\<close> if and only if
  \<open>parseQuery(q)\<close> with the same options returns a query, that is, does not raise.
\<close>

theorem isQueryValid_iff_parseQuery_returns:
  assumes "\<forall>s opts cst. parse s opts = Inr cst \<longrightarrow> wellFormed cst"
  shows "isQueryValid parse soql options \<longleftrightarrow> (\<exists>query. parseQuery parse soql options = Inr query)"
proof (cases "parse soql options")
  case (Inl e)
  then show ?thesis by (simp add: isQueryValid_def parseQuery_def)
next
  case (Inr cst)
  then have "selectStatement cst False \<noteq> None"
    using assms selectStatement_returns by blast
  then show ?thesis
    using Inr by (auto simp: isQueryValid_def parseQuery_def)
qed

theorem isQueryValid_iff_parseQuery_returns_witness:
  "wellFormed (statement [FieldToken (ident_token ''Id'')] ''Account'' None None None)
   \<and> isQueryValid toy_parse ''SELECT Id FROM Account'' ()
   \<and> parseQuery toy_parse ''SELECT Id FROM Account'' ()
       = Inr (Query [Field ''Id'' None None None] (Some ''Account'') None None None None None
                None None None None None None None None)
   \<and> \<not> isQueryValid toy_parse ''SELECT Id FROM'' ()
   \<and> parseQuery toy_parse ''SELECT Id FROM'' () = Inl (ParseRaised ''syntax error'')"
proof -
  have wf: "\<forall>s opts cst. toy_parse s opts = Inr cst \<longrightarrow> wellFormed cst"
    by (auto simp: toy_parse_def statement_def split: if_splits)
  show ?thesis
    using isQueryValid_iff_parseQuery_returns[OF wf, of "''SELECT Id FROM Account''" "()"]
      isQueryValid_iff_parseQuery_returns[OF wf, of "''SELECT Id FROM''" "()"]
    by (simp add: isQueryValid_def parseQuery_def example_defs visitor_defs)
qed


section \<open>The target of FROM\<close>

text \<open>
  C3, as stated, fails: for \<open>SELECT Id FROM ns.Account\<close> the top-level query has
  \<open>sObject = "Account"\<close> and no \<open>sObjectPrefix\<close>.
\<close>

theorem top_level_sObjectPrefix_counterexample:
  "selectStatement select_from_ns_account False \<noteq> None
   \<and> sObject (the (selectStatement select_from_ns_account False)) = Some ''Account''
   \<and> sObjectPrefix (the (selectStatement select_from_ns_account False)) = None
   \<and> sObjectPrefix (the (selectStatement select_from_ns_account False)) \<noteq> Some [''ns'']"
  by (simp add: example_defs visitor_defs)

text \<open>
  C3, amended. When the target of \<open>FROM\<close> is a dotted name \<open>p1. ... .pn.name\<close>, a top-level
  statement builds a query with \<open>sObject = name\<close> and without \<open>sObjectPrefix\<close>; the
  sequence \<open>p1, ..., pn\<close> is kept as \<open>sObjectPrefix\<close> only by a statement visited as a
  subquery, next to \<open>relationshipName = name\<close>.
\<close>

theorem dotted_from_target:
  assumes "selectStatement ctx isSubquery = Some q"
    and "tokImage (from_Identifier (fromClause_node ctx)) = join ''.'' (prefix @ [name])"
    and "prefix \<noteq> []"
    and "\<forall>s \<in> set (prefix @ [name]). CHR ''.'' \<notin> set s"
  shows "(\<not> isSubquery \<longrightarrow>
            sObject q = Some name \<and> sObjectPrefix q = None \<and> relationshipName q = None) \<and>
         (isSubquery \<longrightarrow>
            relationshipName q = Some name \<and> sObjectPrefix q = Some prefix \<and> sObject q = None)"
proof -
  have len: "2 \<le> length (prefix @ [name])"
    using assms(3) by (cases prefix) auto
  have sp: "split CHR ''.'' (join ''.'' (prefix @ [name])) = prefix @ [name]"
    using split_join[of "prefix @ [name]" "CHR ''.''"] assms(4) by simp
  have inc: "includes_char (join ''.'' (prefix @ [name])) CHR ''.''"
    using includes_join[OF len] by simp
  have "out_sObject (fromClause (fromClause_node ctx)) = name"
    and "out_sObjectPrefix (fromClause (fromClause_node ctx)) = Some prefix"
    using sp inc assms(2) by (simp_all add: fromClause_def Let_def)
  then show ?thesis
    using selectStatement_from[OF assms(1)] by simp
qed

theorem dotted_from_target_witness:
  "selectStatement select_from_ns_account False \<noteq> None
   \<and> sObject (the (selectStatement select_from_ns_account False)) = Some ''Account''
   \<and> sObjectPrefix (the (selectStatement select_from_ns_account False)) = None
   \<and> selectStatement select_from_ns_account True \<noteq> None
   \<and> relationshipName (the (selectStatement select_from_ns_account True)) = Some ''Account''
   \<and> sObjectPrefix (the (selectStatement select_from_ns_account True)) = Some [''ns'']"
  using dotted_from_target
          [of select_from_ns_account False "the (selectStatement select_from_ns_account False)"
              "[''ns'']" "''Account''"]
        dotted_from_target
          [of select_from_ns_account True "the (selectStatement select_from_ns_account True)"
              "[''ns'']" "''Account''"]
  by (simp add: example_defs visitor_defs)


section \<open>Date-N literals\<close>

text \<open>
  The condition built for a right-hand side that is a single date-N literal: the value
  is the two images joined by a colon, and the number read from the second image is kept
  as \<open>dateLiteralVariable\<close> only if it is true, that is, not zero.
\<close>

lemma date_n_literal_condition:
  assumes "tokens (rhs (operator_node ctx)) = no_tokens\<lparr> k_dateNLiteral := Some d \<rparr>"
  shows "\<exists>c. expression ctx = Some c
           \<and> cond_value c
               = Some (VString (tokImage (dateNLiteral_token d) @ '':''
                                  @ tokImage (variable_token d)))
           \<and> literalType c = Some (LTScalar ''DATE_N_LITERAL'')
           \<and> dateLiteralVariable c
               = (case Number (tokImage (variable_token d)) of
                    Num n \<Rightarrow> (if n = 0 then None else Some (DLVNumber (Num n)))
                  | NaN \<Rightarrow> None)"
  using assms
  by (simp add: expression_def atomicExpression_def dateNLiteral_def no_tokens_def Let_def
           split: jsNumber.splits)

text \<open>
  C4, at \<open>N = 0\<close>. For \<open>SELECT Id FROM Account WHERE CreatedDate = LAST_N_DAYS:0\<close>
  the built condition has the value \<open>LAST_N_DAYS:0\<close> and the literal type
  \<open>DATE_N_LITERAL\<close> but no \<open>dateLiteralVariable\<close>: the number \<open>0\<close> fails the test
  \<open>if (dateLiteralVariable)\<close>. For \<open>LAST_N_DAYS:7\<close> the variable is \<open>7\<close>.
\<close>

theorem date_n_zero_variable_dropped:
  "selectStatement (created_in_last_n_days ''0'') False \<noteq> None
   \<and> where_clause (the (selectStatement (created_in_last_n_days ''0'') False))
     = Some (WhereClause
         (Condition None (Some ''CreatedDate'') None (Some ''='')
            (Some (VString ''LAST_N_DAYS:0'')) (Some (LTScalar ''DATE_N_LITERAL''))
            None None None None)
         None None)
   \<and> where_clause (the (selectStatement (created_in_last_n_days ''7'') False))
     = Some (WhereClause
         (Condition None (Some ''CreatedDate'') None (Some ''='')
            (Some (VString ''LAST_N_DAYS:7'')) (Some (LTScalar ''DATE_N_LITERAL''))
            None (Some (DLVNumber (Num 7))) None None)
         None None)"
  by (simp add: example_defs visitor_defs)


section \<open>Array literals on the right of a condition\<close>

lemma expression_of_array:
  fixes ctx :: "'q option ExpressionContext"
  assumes "tokens (rhs (operator_node ctx)) = no_tokens\<lparr> k_arrayExpression := Some elements \<rparr>"
  shows "\<exists>c. expression ctx = Some c
           \<and> literalType c = ar_literalType (arrayResult elements :: 'q AtomicResult)
           \<and> dateLiteralVariable c = ar_dateLiteralVariable (arrayResult elements :: 'q AtomicResult)"
proof -
  have a: "atomicExpression (rhs (operator_node ctx)) = Some (arrayResult elements)"
    using assms by (simp add: atomicExpression_def no_tokens_def Let_def)
  have ns: "ar_literalType (arrayResult elements :: 'q AtomicResult) \<noteq> Some (LTScalar ''SUBQUERY'')"
    by (simp add: arrayResult_literalType elementTag_def getLiteralTypeFromTokenType_not_subquery)
  have tr: "truthy_dateLiteralVariable (ar_dateLiteralVariable (arrayResult elements :: 'q AtomicResult))
          \<or> ar_dateLiteralVariable (arrayResult elements :: 'q AtomicResult) = None"
    by (simp add: arrayResult_dateLiteralVariable)
  show ?thesis
    using a ns tr by (auto simp: expression_def Let_def)
qed

text \<open>
  C5, as stated, fails: in \<open>Flag IN (TRUE, FALSE)\<close> both elements have the tag
  \<open>BOOLEAN\<close>, and \<open>literalType\<close> is the sequence of the two tags, not the one tag;
  likewise \<open>Amount IN (1, -2)\<close> has two elements with the tag \<open>INTEGER\<close>.
\<close>

theorem array_tags_agree_counterexample:
  "map elementTag true_false = [''BOOLEAN'', ''BOOLEAN'']
   \<and> expression (in_array ''Flag'' true_false) \<noteq> None
   \<and> literalType (the (expression (in_array ''Flag'' true_false)))
       = Some (LTSeq [''BOOLEAN'', ''BOOLEAN''])
   \<and> literalType (the (expression (in_array ''Flag'' true_false)))
       \<noteq> Some (LTScalar ''BOOLEAN'')
   \<and> map elementTag one_minus_two = [''INTEGER'', ''INTEGER'']
   \<and> literalType (the (expression (in_array ''Amount'' one_minus_two)))
       = Some (LTSeq [''INTEGER'', ''INTEGER''])"
  by (simp add: example_defs visitor_defs elementTag_def)

text \<open>
  C5, amended. For a condition whose right-hand side is an array literal, each element is
  classified by the name of its token type. If the array is not empty and all its elements
  have the same token type name, \<open>literalType\<close> is the one tag of that name; otherwise it
  is the sequence of the tags of the elements, in array order. If at least one element is a
  date-N literal with \<open>N\<close> not zero, \<open>dateLiteralVariable\<close> is a sequence of the length
  of the array which holds \<open>N\<close> at the position of each date-N literal with \<open>N\<close> not zero
  and \<open>null\<close> at the position of each element that is not a date-N literal.
\<close>

theorem array_literal_classification:
  fixes ctx :: "'q option ExpressionContext"
  assumes "tokens (rhs (operator_node ctx)) = no_tokens\<lparr> k_arrayExpression := Some elements \<rparr>"
  shows "\<exists>c. expression ctx = Some c
     \<and> (sameTokenType elements
          \<longrightarrow> literalType c = Some (LTScalar (elementTag (hd elements))))
     \<and> (\<not> sameTokenType elements
          \<longrightarrow> literalType c = Some (LTSeq (map elementTag elements)))
     \<and> ((\<exists>e \<in> set elements. \<exists>n. dateNVariable e = Some n \<and> n \<noteq> 0) \<longrightarrow>
          (\<exists>vs. dateLiteralVariable c = Some (DLVArray vs)
             \<and> length vs = length elements
             \<and> (\<forall>i < length elements.
                  (\<forall>n. dateNVariable (elements ! i) = Some n \<and> n \<noteq> 0 \<longrightarrow> vs ! i = Some (Num n))
                  \<and> (\<forall>t. elements ! i = ArrayToken t \<longrightarrow> vs ! i = None))))"
proof -
  obtain c :: "'q Condition" where c: "expression ctx = Some c"
    and lt: "literalType c = ar_literalType (arrayResult elements :: 'q AtomicResult)"
    and dv: "dateLiteralVariable c = ar_dateLiteralVariable (arrayResult elements :: 'q AtomicResult)"
    using expression_of_array[OF assms] by blast
  have A: "sameTokenType elements
             \<longrightarrow> literalType c = Some (LTScalar (elementTag (hd elements)))"
    and B: "\<not> sameTokenType elements
             \<longrightarrow> literalType c = Some (LTSeq (map elementTag elements))"
    using lt by (simp_all add: arrayResult_literalType)
  have C: "(\<exists>e \<in> set elements. \<exists>n. dateNVariable e = Some n \<and> n \<noteq> 0) \<longrightarrow>
          (\<exists>vs. dateLiteralVariable c = Some (DLVArray vs)
             \<and> length vs = length elements
             \<and> (\<forall>i < length elements.
                  (\<forall>n. dateNVariable (elements ! i) = Some n \<and> n \<noteq> 0 \<longrightarrow> vs ! i = Some (Num n))
                  \<and> (\<forall>t. elements ! i = ArrayToken t \<longrightarrow> vs ! i = None)))"
    using dv by (auto simp: arrayResult_dateLiteralVariable)
  show ?thesis
    using c A B C by (intro exI[of _ c] conjI)
qed

theorem array_literal_classification_witness:
  "literalType (the (expression (in_array ''Name'' two_strings))) = Some (LTScalar ''STRING'')
   \<and> literalType (the (expression (in_array ''CreatedDate'' last_2_days_today)))
       = Some (LTSeq [''DATE_N_LITERAL'', ''DATE_LITERAL''])
   \<and> dateLiteralVariable (the (expression (in_array ''CreatedDate'' last_2_days_today)))
       = Some (DLVArray [Some (Num 2), None])"
  using array_literal_classification[of "in_array ''Name'' two_strings" two_strings]
        array_literal_classification
          [of "in_array ''CreatedDate'' last_2_days_today" last_2_days_today]
  by (simp add: example_defs visitor_defs elementTag_def)


section \<open>Totality of the literal classification\<close>

lemma atomicExpression_raises:
  fixes ctx :: "'q option AtomicExpressionContext"
  assumes "atomicExpression ctx = None"
  shows "(k_date (tokens ctx) \<noteq> None \<and> k_DateToken (tokens ctx) = None)
           \<or> whereClauseSubqueryIdentifier ctx = Some None"
  using assms
  by (simp add: atomicExpression_def Let_def split: if_splits option.splits)

lemma atomicExpression_literalType:
  fixes ctx :: "'q option AtomicExpressionContext"
  assumes "hasAlternative ctx" and "atomicExpression ctx = Some r"
  shows "\<exists>lt. ar_literalType r = Some lt \<and> isLiteralType lt
            \<and> (k_arrayExpression (tokens ctx) = None \<longrightarrow> (\<exists>t. lt = LTScalar t))"
  using assms arrayResult_isLiteralType[of "the (k_arrayExpression (tokens ctx))", where ?'a = 'q]
  by (auto simp: atomicExpression_def hasAlternative_def Let_def scalarResult_def
        LiteralType_values_simps getLiteralTypeFromTokenType_value
      split: if_splits option.splits)

text \<open>
  C6. An \<open>atomicExpression\<close> node in which one of the alternatives is present is visited
  without a raise, unless it has a \<open>date\<close> child and no \<open>DateToken\<close> child or the visit
  of its nested statement raised; and the \<open>literalType\<close> it is assigned is not
  \<open>undefined\<close>: it is a value of the enumeration, or, for an array literal only, a
  sequence of such values.
\<close>

theorem literalType_defined:
  fixes ctx :: "'q option AtomicExpressionContext"
  assumes "hasAlternative ctx"
  shows "(atomicExpression ctx = None \<longrightarrow>
            (k_date (tokens ctx) \<noteq> None \<and> k_DateToken (tokens ctx) = None)
            \<or> whereClauseSubqueryIdentifier ctx = Some None)
       \<and> (\<forall>r. atomicExpression ctx = Some r \<longrightarrow>
            (\<exists>lt. ar_literalType r = Some lt \<and> isLiteralType lt
               \<and> (k_arrayExpression (tokens ctx) = None \<longrightarrow> (\<exists>t. lt = LTScalar t))))"
  using atomicExpression_raises[of ctx] atomicExpression_literalType[OF assms]
  by blast

theorem literalType_defined_witness:
  "hasAlternative string_foo
   \<and> atomicExpression string_foo \<noteq> None
   \<and> ar_literalType (the (atomicExpression string_foo)) = Some (LTScalar ''STRING'')
   \<and> isLiteralType (LTScalar ''STRING'')"
  using literalType_defined[of string_foo]
  by (simp add: example_defs visitor_defs hasAlternative_def LiteralType_values_def)


section \<open>DISTANCE\<close>

text \<open>
  C7, as stated, fails: in \<open>ORDER BY DISTANCE(...)\<close> and on the left of a condition the
  built object has neither \<open>type\<close> nor \<open>isAggregateFn\<close>.
\<close>

theorem distance_isAggregateFn_counterexample:
  "selectStatement order_by_distance False \<noteq> None
   \<and> orderBy (the (selectStatement order_by_distance False))
     = Some (OrderBySingle
         \<lparr> ob_field = None,
           ob_fn = Some (FunctionExp None ''DISTANCE''
                     [PString ''Location__c'',
                      PFn (FunctionExp None ''GEOLOCATION''
                             [PString ''37.775'', PString ''-122.418''] None
                             ''GEOLOCATION(37.775, -122.418)'' None),
                      PString ''mi'']
                     None
                     ''DISTANCE(Location__c, GEOLOCATION(37.775, -122.418), mi)'' None),
           ob_order = None, ob_nulls = None \<rparr>)
   \<and> expression distance_less_than_20 \<noteq> None
   \<and> map_option isAggregateFn (cond_fn (the (expression distance_less_than_20))) = Some None
   \<and> map_option isAggregateFn (cond_fn (the (expression distance_less_than_20)))
       \<noteq> Some (Some True)"
  by (simp add: example_defs visitor_defs)

text \<open>
  C7, amended. Every \<open>DISTANCE\<close> invocation builds an object with \<open>functionName\<close>
  \<open>"DISTANCE"\<close> and the three parameters field, nested \<open>GEOLOCATION\<close> object or field,
  unit. The keys \<open>type = "FieldFunctionExpression"\<close> and \<open>isAggregateFn = true\<close> are set
  together, and only where the invocation is visited with \<open>includeType\<close>: in the
  projection list they are, in \<open>ORDER BY\<close> and on the left of a condition they are absent.
\<close>

theorem distance_by_context:
  "functionName (locationFunction ctx includeType) = ''DISTANCE''
   \<and> parameters (locationFunction ctx includeType)
       = [PString (tokImage (location1 ctx)),
          (case location2 ctx of
             Location2Token t \<Rightarrow> PString (tokImage t)
           | Location2Node g \<Rightarrow> PFn (geolocationFunction g includeType)),
          PString (tokImage (unit_token ctx))]
   \<and> fn_type (locationFunction ctx includeType)
       = (if includeType then Some ''FieldFunctionExpression'' else None)
   \<and> isAggregateFn (locationFunction ctx includeType)
       = (if includeType then Some True else None)
   \<and> (\<exists>f. selectField (SelectClauseFunctionIdentifier (LocationFunction ctx) ctx_alias)
             = Some (FieldFunctionExpression f)
          \<and> functionName f = ''DISTANCE''
          \<and> parameters f = parameters (locationFunction ctx True)
          \<and> fn_type f = Some ''FieldFunctionExpression''
          \<and> isAggregateFn f = Some True)
   \<and> ob_fn (visitOrderBy (OrderByLocationExpression ctx ord nul))
       = Some (locationFunction ctx False)
   \<and> (lhs ectx = LhsFunction (LocationFunction ctx) \<longrightarrow> expression ectx = Some c \<longrightarrow>
        cond_fn c = Some (locationFunction ctx False))"
proof -
  have "lhs ectx = LhsFunction (LocationFunction ctx) \<Longrightarrow> expression ectx = Some c \<Longrightarrow>
          cond_fn c = Some (locationFunction ctx False)"
    by (auto simp: expression_def Let_def split: option.splits)
  moreover have "\<exists>f. selectField (SelectClauseFunctionIdentifier (LocationFunction ctx) ctx_alias)
             = Some (FieldFunctionExpression f)
          \<and> functionName f = ''DISTANCE''
          \<and> parameters f = parameters (locationFunction ctx True)
          \<and> fn_type f = Some ''FieldFunctionExpression''
          \<and> isAggregateFn f = Some True"
    by (cases ctx_alias)
       (simp_all add: selectClauseFunctionIdentifier_def locationFunction_def Let_def)
  ultimately show ?thesis
    by (simp add: locationFunction_def orderByLocationExpression_def Let_def)
qed

theorem distance_by_context_witness:
  "lhs distance_less_than_20 = LhsFunction (LocationFunction distance_call)
   \<and> expression distance_less_than_20 \<noteq> None
   \<and> cond_fn (the (expression distance_less_than_20))
       = Some (locationFunction distance_call False)
   \<and> isAggregateFn (locationFunction distance_call False) = None
   \<and> isAggregateFn (locationFunction distance_call True) = Some True"
  using distance_by_context
          [of distance_call False "None" "None" "None" distance_less_than_20
              "the (expression distance_less_than_20)"]
        distance_by_context
          [of distance_call True "None" "None" "None" distance_less_than_20
              "the (expression distance_less_than_20)"]
  by (simp add: example_defs visitor_defs)


section \<open>Parenthesis balance\<close>

lemma sum_paren_link:
  "sum_openParen (link t logicalOp new) = sum_openParen t + sum_openParen new"
  "sum_closeParen (link t logicalOp new) = sum_closeParen t + sum_closeParen new"
  by (induction t logicalOp new rule: link.induct) simp_all

lemma conditionExpression_parens:
  assumes "conditionExpression ce = Some new"
  shows "sum_openParen new = (case L_PAREN (expression_node ce) of None \<Rightarrow> 0 | Some ts \<Rightarrow> length ts)"
    and "sum_closeParen new = (case R_PAREN (expression_node ce) of None \<Rightarrow> 0 | Some ts \<Rightarrow> length ts)"
  using assms
  by (auto simp: conditionExpression_def expression_def Let_def split: option.splits)

lemma reduce_conditions_parens:
  assumes "reduce_conditions acc ces = Some res"
  shows "(case res of None \<Rightarrow> 0 | Some t \<Rightarrow> sum_openParen t)
           = (case acc of None \<Rightarrow> 0 | Some t \<Rightarrow> sum_openParen t) + count_L_PAREN ces"
    and "(case res of None \<Rightarrow> 0 | Some t \<Rightarrow> sum_closeParen t)
           = (case acc of None \<Rightarrow> 0 | Some t \<Rightarrow> sum_closeParen t) + count_R_PAREN ces"
    and "res = None \<longleftrightarrow> acc = None \<and> ces = []"
  using assms
proof (induction ces arbitrary: acc)
  case Nil
  {
    case 1 then show ?case by (simp add: count_L_PAREN_def)
  next
    case 2 then show ?case by (simp add: count_R_PAREN_def)
  next
    case 3 then show ?case by simp
  }
next
  case (Cons ce ces)
  {
    case 1
    then obtain new where new: "conditionExpression ce = Some new"
      and r: "reduce_conditions
                (case acc of None \<Rightarrow> Some new
                 | Some tree \<Rightarrow> Some (link tree (logicalOperator ce) new)) ces = Some res"
      by (auto split: option.splits)
    show ?case
      using Cons.IH(1)[OF r] conditionExpression_parens(1)[OF new]
      by (cases acc) (simp_all add: count_L_PAREN_def sum_paren_link)
  next
    case 2
    then obtain new where new: "conditionExpression ce = Some new"
      and r: "reduce_conditions
                (case acc of None \<Rightarrow> Some new
                 | Some tree \<Rightarrow> Some (link tree (logicalOperator ce) new)) ces = Some res"
      by (auto split: option.splits)
    show ?case
      using Cons.IH(2)[OF r] conditionExpression_parens(2)[OF new]
      by (cases acc) (simp_all add: count_R_PAREN_def sum_paren_link)
  next
    case 3
    then obtain new where new: "conditionExpression ce = Some new"
      and r: "reduce_conditions
                (case acc of None \<Rightarrow> Some new
                 | Some tree \<Rightarrow> Some (link tree (logicalOperator ce) new)) ces = Some res"
      by (auto split: option.splits)
    show ?case
      using Cons.IH(3)[OF r] by (cases acc) simp_all
  }
qed

lemma count_PAREN_map:
  "count_L_PAREN (map (map_ConditionExpressionContext g) ces) = count_L_PAREN ces"
  "count_R_PAREN (map (map_ConditionExpressionContext g) ces) = count_R_PAREN ces"
  by (simp_all add: count_L_PAREN_def count_R_PAREN_def comp_def
        ConditionExpressionContext.map_sel ExpressionContext.map_sel)

lemma chain_parens:
  assumes "reduce_conditions None (map (map_ConditionExpressionContext g) ces) = Some res"
    and "ces \<noteq> []"
  shows "\<exists>tree. res = Some tree
           \<and> sum_openParen tree = count_L_PAREN ces
           \<and> sum_closeParen tree = count_R_PAREN ces"
  using reduce_conditions_parens[OF assms(1)] assms(2)
  by (cases res) (simp_all add: count_PAREN_map)

text \<open>
  C8. The chain built for a \<open>WHERE\<close> or a \<open>HAVING\<close> clause carries, summed along its
  \<open>right\<close> links, as many \<open>openParen\<close> as the clause has \<open>(\<close> tokens and as many
  \<open>closeParen\<close> as it has \<open>)\<close> tokens; hence for a clause that the grammar accepts,
  whose tokens balance, the two sums are equal.
\<close>

theorem parenthesis_balance:
  assumes "selectStatement ctx isSubquery = Some q"
  shows "(\<forall>ces. whereClause_node ctx = Some ces \<and> ces \<noteq> [] \<longrightarrow>
            (\<exists>tree. where_clause q = Some tree
               \<and> sum_openParen tree = count_L_PAREN ces
               \<and> sum_closeParen tree = count_R_PAREN ces
               \<and> (parens_balanced ces \<longrightarrow> sum_openParen tree = sum_closeParen tree)))
       \<and> (\<forall>g ces. groupByClause_node ctx = Some g \<and> havingClause_node g = Some ces
                     \<and> ces \<noteq> [] \<longrightarrow>
            (\<exists>gq tree. groupBy q = Some gq \<and> having gq = Some tree
               \<and> sum_openParen tree = count_L_PAREN ces
               \<and> sum_closeParen tree = count_R_PAREN ces
               \<and> (parens_balanced ces \<longrightarrow> sum_openParen tree = sum_closeParen tree)))"
proof (intro conjI allI impI)
  fix ces
  assume h: "whereClause_node ctx = Some ces \<and> ces \<noteq> []"
  have "reduce_conditions None
          (map (map_ConditionExpressionContext (\<lambda>s. selectStatement s False)) ces)
          = Some (where_clause q)"
    using selectStatement_where[OF assms, of ces] h by (simp add: whereClause_def)
  then obtain tree where "where_clause q = Some tree"
    "sum_openParen tree = count_L_PAREN ces" "sum_closeParen tree = count_R_PAREN ces"
    using chain_parens h by blast
  then show "\<exists>tree. where_clause q = Some tree
               \<and> sum_openParen tree = count_L_PAREN ces
               \<and> sum_closeParen tree = count_R_PAREN ces
               \<and> (parens_balanced ces \<longrightarrow> sum_openParen tree = sum_closeParen tree)"
    by (simp add: parens_balanced_def)
next
  fix g ces
  assume h: "groupByClause_node ctx = Some g \<and> havingClause_node g = Some ces \<and> ces \<noteq> []"
  obtain gq where gq: "groupBy q = Some gq"
    and hv: "havingClause (map (map_ConditionExpressionContext (\<lambda>s. selectStatement s False)) ces)
               = Some (having gq)"
    using selectStatement_having[OF assms, of g ces] h by blast
  have "reduce_conditions None
          (map (map_ConditionExpressionContext (\<lambda>s. selectStatement s False)) ces)
          = Some (having gq)"
    using hv by (simp add: havingClause_def)
  then obtain tree where "having gq = Some tree"
    "sum_openParen tree = count_L_PAREN ces" "sum_closeParen tree = count_R_PAREN ces"
    using chain_parens h by blast
  then show "\<exists>gq tree. groupBy q = Some gq \<and> having gq = Some tree
               \<and> sum_openParen tree = count_L_PAREN ces
               \<and> sum_closeParen tree = count_R_PAREN ces
               \<and> (parens_balanced ces \<longrightarrow> sum_openParen tree = sum_closeParen tree)"
    using gq by (simp add: parens_balanced_def)
qed

theorem parenthesis_balance_witness:
  "selectStatement where_a_and_b_or_c False \<noteq> None
   \<and> whereClause_node where_a_and_b_or_c \<noteq> None
   \<and> parens_balanced (the (whereClause_node where_a_and_b_or_c))
   \<and> sum_openParen (the (where_clause (the (selectStatement where_a_and_b_or_c False)))) = 1
   \<and> sum_closeParen (the (where_clause (the (selectStatement where_a_and_b_or_c False)))) = 1
   \<and> selectStatement having_count False \<noteq> None
   \<and> parens_balanced (the (havingClause_node (the (groupByClause_node having_count))))
   \<and> sum_openParen (the (having (the (groupBy (the (selectStatement having_count False)))))) = 1
   \<and> sum_closeParen (the (having (the (groupBy (the (selectStatement having_count False)))))) = 1"
  using parenthesis_balance
          [of where_a_and_b_or_c False "the (selectStatement where_a_and_b_or_c False)"]
        parenthesis_balance
          [of having_count False "the (selectStatement having_count False)"]
  by (simp add: example_defs visitor_defs parens_balanced_def count_L_PAREN_def
        count_R_PAREN_def)


section \<open>ORDER BY\<close>

text \<open>
  C9. For a statement with an \<open>ORDER BY\<close> clause, the \<open>orderBy\<close> attribute of the built
  query is the one clause when there is exactly one criterion, and the sequence of the
  clauses, one per criterion in source order, when there are more.
\<close>

theorem orderBy_single_or_sequence:
  assumes "selectStatement ctx isSubquery = Some q"
    and "orderByClause_node ctx = Some criteria"
  shows "(length criteria = 1 \<longrightarrow>
            orderBy q = Some (OrderBySingle (visitOrderBy (criteria ! 0)))) \<and>
         (1 < length criteria \<longrightarrow>
            orderBy q = Some (OrderBySequence (map visitOrderBy criteria)))"
  using selectStatement_orderBy[OF assms(1)] assms(2)
  by (cases criteria) (auto simp: orderByClause_def)

theorem orderBy_single_or_sequence_witness:
  "selectStatement order_by_name False \<noteq> None
   \<and> orderBy (the (selectStatement order_by_name False))
     = Some (OrderBySingle
         \<lparr> ob_field = Some ''Name'', ob_fn = None, ob_order = None, ob_nulls = None \<rparr>)
   \<and> selectStatement order_by_name_id False \<noteq> None
   \<and> orderBy (the (selectStatement order_by_name_id False))
     = Some (OrderBySequence
        [\<lparr> ob_field = Some ''Name'', ob_fn = None, ob_order = Some ''DESC'', ob_nulls = None \<rparr>,
         \<lparr> ob_field = Some ''Id'', ob_fn = None, ob_order = None, ob_nulls = None \<rparr>])"
  using orderBy_single_or_sequence
          [of order_by_name False "the (selectStatement order_by_name False)"
              "[OrderByExpression (ident_token ''Name'') None None]"]
        orderBy_single_or_sequence
          [of order_by_name_id False "the (selectStatement order_by_name_id False)"
              "[OrderByExpression (ident_token ''Name'') (Some (keyword_token ''DESC'')) None,
                OrderByExpression (ident_token ''Id'') None None]"]
  by (simp add: example_defs visitor_defs)


section \<open>The defaults of the configuration\<close>

text \<open>
  C10. \<open>parseQuery(soql, config)\<close> of \<open>SoqlParser.ts\<close> changes the caller's object: after
  the call each of \<open>continueIfErrors\<close>, \<open>logging\<close> and \<open>includeSubqueryAsField\<close> holds
  the boolean it held before, or else its default \<open>false\<close>, \<open>false\<close>, \<open>true\<close>; no other
  object of the store changes, and the object differs from what it was whenever one of the
  three keys was missing or not a boolean.
\<close>

theorem parseQuery_configures_caller_object:
  "continueIfErrors (fst (SoqlParser_parseQuery walk st soql config) config) =
     (case continueIfErrors (st config) of Boolean b \<Rightarrow> Boolean b | _ \<Rightarrow> Boolean False) \<and>
   logging (fst (SoqlParser_parseQuery walk st soql config) config) =
     (case logging (st config) of Boolean b \<Rightarrow> Boolean b | _ \<Rightarrow> Boolean False) \<and>
   includeSubqueryAsField (fst (SoqlParser_parseQuery walk st soql config) config) =
     (case includeSubqueryAsField (st config) of Boolean b \<Rightarrow> Boolean b | _ \<Rightarrow> Boolean True) \<and>
   (\<forall>other. other \<noteq> config \<longrightarrow>
      fst (SoqlParser_parseQuery walk st soql config) other = st other) \<and>
   (\<not> isBoolean (continueIfErrors (st config)) \<or> \<not> isBoolean (logging (st config))
      \<or> \<not> isBoolean (includeSubqueryAsField (st config))
    \<longrightarrow> fst (SoqlParser_parseQuery walk st soql config) config \<noteq> st config)"
  by (cases "continueIfErrors (st config)"; cases "logging (st config)";
      cases "includeSubqueryAsField (st config)")
     (auto simp: SoqlParser_parseQuery_def configureDefaults_def Let_def
           dest: arg_cong[where f = continueIfErrors] arg_cong[where f = logging]
                 arg_cong[where f = includeSubqueryAsField])

theorem parseQuery_configures_caller_object_witness:
  "fst (SoqlParser_parseQuery (\<lambda>s c. (Inr () :: unit + unit)) caller_store
          ''SELECT Id FROM Account'' 0) 0
     = \<lparr> continueIfErrors = Boolean False, logging = Boolean False,
         includeSubqueryAsField = Boolean False \<rparr>
   \<and> fst (SoqlParser_parseQuery (\<lambda>s c. (Inr () :: unit + unit)) caller_store
          ''SELECT Id FROM Account'' 0) 1
     = caller_store 1
   \<and> fst (SoqlParser_parseQuery (\<lambda>s c. (Inr () :: unit + unit)) caller_store
          ''SELECT Id FROM Account'' 0) 0
     \<noteq> caller_store 0"
  using parseQuery_configures_caller_object
    [of "\<lambda>s c. (Inr () :: unit + unit)" caller_store "''SELECT Id FROM Account''" 0]
  by (simp add: caller_store_def SoqlParser_parseQuery_def configureDefaults_def)

end
